theory Spec2Isabelle
  imports Complex_Main
begin

section \<open>The (M, N) inventory policy simulator\<close>

text \<open>
  A shallow embedding of \<^verbatim>\<open>src/simulation.py\<close>. The module has one entry point,
  \<^verbatim>\<open>simulate_policy\<close>, whose body is a single loop over the days
  \<^verbatim>\<open>range(1, num_days + 1)\<close>. The loop body becomes \<open>day_step\<close>, the loop becomes
  \<open>run_days\<close>, and the local variables the loop mutates become the record
  \<open>loop_state\<close>.

  Two things the module uses are not part of the repository and are taken as parameters:
  \<^item> Python's float arithmetic (the four cost parameters, the per-day costs and the totals
    are floats). The type of floats is a type variable \<open>'c\<close> and the operations the code
    applies to it are the fields of \<open>float_ops\<close>. Nothing is assumed of them beyond
    what a theorem states as a hypothesis, so the theorems hold for IEEE doubles as well
    as for exact reals.
  \<^item> numpy's random generator. The generator state is a type variable \<open>'g\<close>;
    \<^verbatim>\<open>np.random.default_rng\<close> and \<^verbatim>\<open>Generator.choice\<close> are the fields of
    \<open>generator_ops\<close>. A draw returns the value and the advanced generator, or the
    exception numpy raises on a distribution it rejects.
\<close>

subsection \<open>Exceptions\<close>

datatype error = ValueError | ZeroDivisionError | OverflowError

subsection \<open>Configuration types\<close>

text \<open>The three frozen dataclasses.\<close>

record 'c CostParameters =
  holding_cost :: 'c
  shortage_cost :: 'c
  unit_cost :: 'c
  ordering_cost :: 'c

record InitialState =
  on_hand :: int
  outstanding_qty :: int
  lead_remaining :: int

record 'c DiscreteDistributions =
  demand_values :: "int list"
  demand_probs :: "'c list"
  lead_values :: "int list"
  lead_probs :: "'c list"

subsection \<open>The environment: float arithmetic and the random generator\<close>

text \<open>
  \<open>fzero\<close> is the literal \<^verbatim>\<open>0.0\<close>, \<open>fadd\<close> is float \<^verbatim>\<open>+\<close>, \<open>imul\<close> is
  \<^verbatim>\<open>int * float\<close> and \<open>fdiv\<close> is \<^verbatim>\<open>float / int\<close> for a divisor that is not zero.
  The last two convert the integer to a float first, which raises OverflowError on an
  integer beyond the float range, so they return a sum.
\<close>

record 'c float_ops =
  fzero :: 'c
  fadd :: "'c \<Rightarrow> 'c \<Rightarrow> 'c"
  imul :: "int \<Rightarrow> 'c \<Rightarrow> error + 'c"
  fdiv :: "'c \<Rightarrow> int \<Rightarrow> error + 'c"

text \<open>
  \<open>default_rng seed\<close> builds the generator of a concrete seed (numpy raises ValueError on
  a negative one). \<open>choice g values probs\<close> is \<^verbatim>\<open>g.choice(values, p=probs)\<close>: it raises
  ValueError on a distribution numpy rejects, and otherwise returns the drawn value together
  with the generator after the draw.
\<close>

record ('g, 'c) generator_ops =
  default_rng :: "int \<Rightarrow> error + 'g"
  choice :: "'g \<Rightarrow> int list \<Rightarrow> 'c list \<Rightarrow> error + int \<times> 'g"

subsection \<open>The per-day record\<close>

text \<open>
  One row of the returned DataFrame, with the column names of the specification's schema
  (the source's keys are "Day", "Cycle", "On-hand start", "Incoming today", ...). The lead
  time of a new order is \<^verbatim>\<open>None\<close> on a day without an order.
\<close>

record 'c DayRecord =
  Day :: int
  Cycle :: int
  OnHandStart :: int
  IncomingToday :: int
  Demand :: int
  Sales :: int
  EndingInventory :: int
  ShortageQty :: int
  HoldingCost :: 'c
  ShortageCost :: 'c
  OrderQty :: int
  LeadTimeNewOrder :: "int option"
  LeadRemainingEnd :: int
  PurchasingCost :: 'c
  OrderingCost :: 'c
  TotalCostDay :: 'c

subsection \<open>The local variables of the loop\<close>

record ('g, 'c) loop_state =
  cur_on_hand :: int
  cur_outstanding_qty :: int
  cur_lead_remaining :: int
  rng :: 'g
  records :: "'c DayRecord list"
  total_cost :: 'c

subsection \<open>The sampler\<close>

text \<open>
  \<^verbatim>\<open>_sample_from_discrete(values, probs, rng)\<close> is \<^verbatim>\<open>int(rng.choice(values, p=probs))\<close>.
  The values are integers, so the conversion changes nothing.
\<close>

definition sample_from_discrete ::
  "('g, 'c) generator_ops \<Rightarrow> int list \<Rightarrow> 'c list \<Rightarrow> 'g \<Rightarrow> error + int \<times> 'g" where
  "sample_from_discrete np vals probs g = choice np g vals probs"

subsection \<open>One day\<close>

text \<open>
  Step 1 of the loop body: an outstanding order whose lead time has expired is received.
  The result is \<open>(incoming_today, on_hand, outstanding_qty)\<close> after the step.
\<close>

definition receive_order :: "('g, 'c) loop_state \<Rightarrow> int \<times> int \<times> int" where
  "receive_order s =
     (if cur_lead_remaining s = 0 \<and> cur_outstanding_qty s > 0
      then (cur_outstanding_qty s, cur_on_hand s + cur_outstanding_qty s, 0)
      else (0, cur_on_hand s, cur_outstanding_qty s))"

text \<open>
  The body of the \<^verbatim>\<open>if\<close> of step 6: the order quantity, the sampled lead time, the new
  \<open>outstanding_qty\<close> and \<open>lead_remaining\<close>, the purchasing and ordering cost, and the
  generator after the draw.
\<close>

definition place_order ::
  "'c float_ops \<Rightarrow> ('g, 'c) generator_ops \<Rightarrow> int \<Rightarrow> 'c CostParameters \<Rightarrow>
   'c DiscreteDistributions \<Rightarrow> int \<Rightarrow> 'g \<Rightarrow>
   error + int \<times> int option \<times> int \<times> int \<times> 'c \<times> 'c \<times> 'g" where
  "place_order fl np M costs distributions ending_inventory g =
     (let order_qty = M - ending_inventory in
      case sample_from_discrete np (lead_values distributions) (lead_probs distributions) g of
        Inl e \<Rightarrow> Inl e
      | Inr (lead_time_assigned, g') \<Rightarrow>
          (case imul fl order_qty (unit_cost costs) of
             Inl e \<Rightarrow> Inl e
           | Inr purchasing_cost \<Rightarrow>
               Inr (order_qty, Some lead_time_assigned, order_qty, lead_time_assigned,
                    purchasing_cost, ordering_cost costs, g')))"

text \<open>
  The loop body. \<^verbatim>\<open>//\<close> and \<^verbatim>\<open>%\<close> on Python integers round towards minus infinity, as
  \<open>div\<close> and \<open>mod\<close> on \<open>int\<close> do, and raise ZeroDivisionError on a zero divisor.
\<close>

definition day_step ::
  "'c float_ops \<Rightarrow> ('g, 'c) generator_ops \<Rightarrow> int \<Rightarrow> int \<Rightarrow> 'c CostParameters \<Rightarrow>
   'c DiscreteDistributions \<Rightarrow> int \<Rightarrow> ('g, 'c) loop_state \<Rightarrow> error + ('g, 'c) loop_state" where
  "day_step fl np M N costs distributions day s =
     (if N = 0 then Inl ZeroDivisionError
      else
        let cycle = (day - 1) div N + 1;
            (incoming_today, on_hand1, outstanding1) = receive_order s;
            on_hand_start = on_hand1
        in
        case sample_from_discrete np (demand_values distributions)
               (demand_probs distributions) (rng s) of
          Inl e \<Rightarrow> Inl e
        | Inr (demand, g1) \<Rightarrow>
            let sales = min on_hand1 demand;
                shortage_qty = max (demand - on_hand1) 0;
                ending_inventory = on_hand1 - sales
            in
            (case imul fl ending_inventory (holding_cost costs) of
               Inl e \<Rightarrow> Inl e
             | Inr holding \<Rightarrow>
                 (case imul fl shortage_qty (shortage_cost costs) of
                    Inl e \<Rightarrow> Inl e
                  | Inr shortage \<Rightarrow>
                      let is_review_day = (day mod N = 0) in
                      (case (if is_review_day \<and> ending_inventory < M \<and> outstanding1 = 0
                             then place_order fl np M costs distributions ending_inventory g1
                             else Inr (0, None, outstanding1, cur_lead_remaining s,
                                       fzero fl, fzero fl, g1)) of
                         Inl e \<Rightarrow> Inl e
                       | Inr (order_qty, lead_time_assigned, outstanding2, lead2,
                              purchasing, ordering_fee, g2) \<Rightarrow>
                           let lead3 = (if outstanding2 > 0 \<and> lead2 > 0 then lead2 - 1 else lead2);
                               day_cost = fadd fl (fadd fl (fadd fl holding shortage) purchasing)
                                            ordering_fee
                           in Inr \<lparr>cur_on_hand = ending_inventory,
                                   cur_outstanding_qty = outstanding2,
                                   cur_lead_remaining = lead3,
                                   rng = g2,
                                   records = records s @
                                     [\<lparr>Day = day, Cycle = cycle,
                                       OnHandStart = on_hand_start,
                                       IncomingToday = incoming_today,
                                       Demand = demand, Sales = sales,
                                       EndingInventory = ending_inventory,
                                       ShortageQty = shortage_qty,
                                       HoldingCost = holding, ShortageCost = shortage,
                                       OrderQty = order_qty,
                                       LeadTimeNewOrder = lead_time_assigned,
                                       LeadRemainingEnd = lead3,
                                       PurchasingCost = purchasing,
                                       OrderingCost = ordering_fee,
                                       TotalCostDay = day_cost\<rparr>],
                                   total_cost = fadd fl (total_cost s) day_cost\<rparr>))))"

text \<open>
  The operations of the loop body that can raise, at the arguments the body gives them: the
  demand draw, the two products for the holding and the shortage cost and, when the
  condition of step 6 holds, the lead-time draw and the product for the purchasing cost.
  \<open>day_raises\<close> says that one of them does. (The divisions by \<open>N\<close> are left out: a day
  is simulated only if \<open>N * num_cycles \<ge> 1\<close>, and then \<open>N\<close> is not zero.)
\<close>

definition day_raises ::
  "'c float_ops \<Rightarrow> ('g, 'c) generator_ops \<Rightarrow> int \<Rightarrow> int \<Rightarrow> 'c CostParameters \<Rightarrow>
   'c DiscreteDistributions \<Rightarrow> int \<Rightarrow> ('g, 'c) loop_state \<Rightarrow> bool" where
  "day_raises fl np M N costs distributions day s =
     (case receive_order s of
        (incoming_today, on_hand1, outstanding1) \<Rightarrow>
          (case choice np (rng s) (demand_values distributions) (demand_probs distributions) of
             Inl e \<Rightarrow> True
           | Inr (demand, g1) \<Rightarrow>
               isl (imul fl (on_hand1 - min on_hand1 demand) (holding_cost costs)) \<or>
               isl (imul fl (max (demand - on_hand1) 0) (shortage_cost costs)) \<or>
               (day mod N = 0 \<and> on_hand1 - min on_hand1 demand < M \<and> outstanding1 = 0) \<and>
               (isl (choice np g1 (lead_values distributions) (lead_probs distributions)) \<or>
                isl (imul fl (M - (on_hand1 - min on_hand1 demand)) (unit_cost costs)))))"

subsection \<open>The loop and the driver\<close>

text \<open>The \<^verbatim>\<open>for\<close> loop over a list of days; an exception in one day ends the run.\<close>

fun run_days ::
  "'c float_ops \<Rightarrow> ('g, 'c) generator_ops \<Rightarrow> int \<Rightarrow> int \<Rightarrow> 'c CostParameters \<Rightarrow>
   'c DiscreteDistributions \<Rightarrow> int list \<Rightarrow> ('g, 'c) loop_state \<Rightarrow> error + ('g, 'c) loop_state" where
  "run_days fl np M N costs distributions [] s = Inr s"
| "run_days fl np M N costs distributions (day # days) s =
     (case day_step fl np M N costs distributions day s of
        Inl e \<Rightarrow> Inl e
      | Inr s' \<Rightarrow> run_days fl np M N costs distributions days s')"

text \<open>
  \<^verbatim>\<open>np.random.default_rng(seed)\<close>. With \<^verbatim>\<open>seed=None\<close> numpy seeds the generator from
  the operating system's entropy: that generator is the argument \<open>entropy\<close>, an input of
  the call that the caller does not control.
\<close>

definition make_rng :: "('g, 'c) generator_ops \<Rightarrow> 'g \<Rightarrow> int option \<Rightarrow> error + 'g" where
  "make_rng np entropy seed =
     (case seed of None \<Rightarrow> Inr entropy | Some n \<Rightarrow> default_rng np n)"

text \<open>The variables before the first day.\<close>

definition init_loop :: "'c float_ops \<Rightarrow> 'g \<Rightarrow> InitialState \<Rightarrow> ('g, 'c) loop_state" where
  "init_loop fl g initial_state =
     \<lparr>cur_on_hand = on_hand initial_state,
      cur_outstanding_qty = outstanding_qty initial_state,
      cur_lead_remaining = lead_remaining initial_state,
      rng = g, records = [], total_cost = fzero fl\<rparr>"

text \<open>
  \<^verbatim>\<open>simulate_policy\<close>. The DataFrame is the list of its rows. The final division raises
  ZeroDivisionError when \<open>num_cycles\<close> is zero.
\<close>

definition simulate_policy ::
  "'c float_ops \<Rightarrow> ('g, 'c) generator_ops \<Rightarrow> 'g \<Rightarrow> int \<Rightarrow> int \<Rightarrow> int \<Rightarrow> 'c CostParameters \<Rightarrow>
   InitialState \<Rightarrow> 'c DiscreteDistributions \<Rightarrow> int option \<Rightarrow>
   error + 'c DayRecord list \<times> 'c \<times> 'c" where
  "simulate_policy fl np entropy M N num_cycles costs initial_state distributions seed =
     (case make_rng np entropy seed of
        Inl e \<Rightarrow> Inl e
      | Inr g \<Rightarrow>
          let num_days = N * num_cycles in
          (case run_days fl np M N costs distributions [1..num_days]
                  (init_loop fl g initial_state) of
             Inl e \<Rightarrow> Inl e
           | Inr s \<Rightarrow>
               if num_cycles = 0 then Inl ZeroDivisionError
               else (case fdiv fl (total_cost s) num_cycles of
                       Inl e \<Rightarrow> Inl e
                     | Inr avg_cost_per_cycle \<Rightarrow>
                         Inr (records s, total_cost s, avg_cost_per_cycle))))"

subsection \<open>The defaults of the configuration module\<close>

text \<open>
  The constants of \<^verbatim>\<open>src/config.py\<close> that the pages pass to \<^verbatim>\<open>simulate_policy\<close>.
\<close>

definition DEFAULT_DISTRIBUTIONS :: "real DiscreteDistributions" where
  "DEFAULT_DISTRIBUTIONS =
     \<lparr>demand_values = [0, 1, 2, 3, 4],
      demand_probs = [0.10, 0.25, 0.35, 0.21, 0.09],
      lead_values = [1, 2, 3],
      lead_probs = [0.60, 0.30, 0.10]\<rparr>"

definition DEFAULT_COSTS :: "real CostParameters" where
  "DEFAULT_COSTS =
     \<lparr>holding_cost = 20.0, shortage_cost = 10.0, unit_cost = 50.0, ordering_cost = 10.0\<rparr>"

definition DEFAULT_INITIAL_STATE :: InitialState where
  "DEFAULT_INITIAL_STATE = \<lparr>on_hand = 3, outstanding_qty = 8, lead_remaining = 2\<rparr>"

subsection \<open>A concrete environment for running the model\<close>

text \<open>
  Exact real arithmetic for the floats, and a small deterministic generator: its state is
  a counter, it rejects what numpy rejects (no values, arrays of different lengths, a
  negative probability, probabilities that do not sum to one) and otherwise returns the
  value at the counter's position, cyclically. On a distribution with a single value it
  returns that value, as every sampler must. The theorems below hold for every environment;
  this one evaluates them on concrete runs.
\<close>

definition real_ops :: "real float_ops" where
  "real_ops = \<lparr>fzero = 0, fadd = (\<lambda>x y. x + y),
               imul = (\<lambda>i x. Inr (of_int i * x)),
               fdiv = (\<lambda>x n. Inr (x / of_int n))\<rparr>"

definition counter_gen :: "(nat, real) generator_ops" where
  "counter_gen =
     \<lparr>default_rng = (\<lambda>seed. if seed < 0 then Inl ValueError else Inr (nat seed)),
      choice = (\<lambda>g vals probs.
         if 0 < length vals \<and> length probs = length vals \<and> list_all (\<lambda>p. 0 \<le> p) probs
            \<and> sum_list probs = 1
         then Inr (vals ! (g mod length vals), Suc g)
         else Inl ValueError)\<rparr>"

text \<open>
  The rows of four concrete runs in this environment, named so that the statements about
  them stay short. \<open>default_run\<close>: the defaults with \<open>M = 11\<close>, \<open>N = 2\<close>, two cycles and
  seed 0. \<open>late_arrival_day\<close>: one day that starts with nothing on hand, receives 2 units
  and meets a demand of 3. \<open>negative_demand_day\<close>: one day with 5 units on hand and a
  demand distribution whose only value is \<open>-2\<close>. \<open>zero_lead_run\<close>: two days with
  \<open>M = 7\<close>, no demand and a lead-time distribution whose only value is 0.
\<close>

definition default_run :: "real DayRecord list" where
  "default_run =
     [\<lparr>Day = 1, Cycle = 1, OnHandStart = 3, IncomingToday = 0, Demand = 0, Sales = 0,
        EndingInventory = 3, ShortageQty = 0, HoldingCost = 60, ShortageCost = 0,
        OrderQty = 0, LeadTimeNewOrder = None, LeadRemainingEnd = 1, PurchasingCost = 0,
        OrderingCost = 0, TotalCostDay = 60\<rparr>,
      \<lparr>Day = 2, Cycle = 1, OnHandStart = 3, IncomingToday = 0, Demand = 1, Sales = 1,
        EndingInventory = 2, ShortageQty = 0, HoldingCost = 40, ShortageCost = 0,
        OrderQty = 0, LeadTimeNewOrder = None, LeadRemainingEnd = 0, PurchasingCost = 0,
        OrderingCost = 0, TotalCostDay = 40\<rparr>,
      \<lparr>Day = 3, Cycle = 2, OnHandStart = 10, IncomingToday = 8, Demand = 2, Sales = 2,
        EndingInventory = 8, ShortageQty = 0, HoldingCost = 160, ShortageCost = 0,
        OrderQty = 0, LeadTimeNewOrder = None, LeadRemainingEnd = 0, PurchasingCost = 0,
        OrderingCost = 0, TotalCostDay = 160\<rparr>,
      \<lparr>Day = 4, Cycle = 2, OnHandStart = 8, IncomingToday = 0, Demand = 3, Sales = 3,
        EndingInventory = 5, ShortageQty = 0, HoldingCost = 100, ShortageCost = 0,
        OrderQty = 6, LeadTimeNewOrder = Some 2, LeadRemainingEnd = 1, PurchasingCost = 300,
        OrderingCost = 10, TotalCostDay = 410\<rparr>]"

definition late_arrival_day :: "real DayRecord" where
  "late_arrival_day =
     \<lparr>Day = 1, Cycle = 1, OnHandStart = 2, IncomingToday = 2, Demand = 3, Sales = 2,
      EndingInventory = 0, ShortageQty = 1, HoldingCost = 0, ShortageCost = 10,
      OrderQty = 5, LeadTimeNewOrder = Some 1, LeadRemainingEnd = 0, PurchasingCost = 250,
      OrderingCost = 10, TotalCostDay = 270\<rparr>"

definition negative_demand_day :: "real DayRecord" where
  "negative_demand_day =
     \<lparr>Day = 1, Cycle = 1, OnHandStart = 5, IncomingToday = 0, Demand = - 2, Sales = - 2,
      EndingInventory = 7, ShortageQty = 0, HoldingCost = 140, ShortageCost = 0,
      OrderQty = 0, LeadTimeNewOrder = None, LeadRemainingEnd = 0, PurchasingCost = 0,
      OrderingCost = 0, TotalCostDay = 140\<rparr>"

definition zero_lead_run :: "real DayRecord list" where
  "zero_lead_run =
     [\<lparr>Day = 1, Cycle = 1, OnHandStart = 5, IncomingToday = 0, Demand = 0, Sales = 0,
        EndingInventory = 5, ShortageQty = 0, HoldingCost = 100, ShortageCost = 0,
        OrderQty = 2, LeadTimeNewOrder = Some 0, LeadRemainingEnd = 0, PurchasingCost = 100,
        OrderingCost = 10, TotalCostDay = 210\<rparr>,
      \<lparr>Day = 2, Cycle = 2, OnHandStart = 7, IncomingToday = 2, Demand = 0, Sales = 0,
        EndingInventory = 7, ShortageQty = 0, HoldingCost = 140, ShortageCost = 0,
        OrderQty = 0, LeadTimeNewOrder = None, LeadRemainingEnd = 0, PurchasingCost = 0,
        OrderingCost = 0, TotalCostDay = 140\<rparr>]"

subsection \<open>Predicates of the proofs\<close>

text \<open>
  \<open>day_record_ok\<close> collects what one execution of the loop body establishes about the row
  it appends. \<open>first_ok\<close> relates a row to the variables at the start of its day,
  \<open>linked\<close> relates it to the variables at the end of its day, and \<open>next_ok\<close> relates two
  consecutive rows.
\<close>
definition day_record_ok :: "'c float_ops \<Rightarrow> int \<Rightarrow> 'c DayRecord \<Rightarrow> bool" where
  "day_record_ok fl N r \<longleftrightarrow>
     Cycle r = (Day r - 1) div N + 1 \<and>
     0 \<le> IncomingToday r \<and>
     Sales r = min (OnHandStart r) (Demand r) \<and>
     ShortageQty r = max (Demand r - OnHandStart r) 0 \<and>
     EndingInventory r = OnHandStart r - Sales r \<and>
     TotalCostDay r =
       fadd fl (fadd fl (fadd fl (HoldingCost r) (ShortageCost r)) (PurchasingCost r))
         (OrderingCost r) \<and>
     (if OrderQty r > 0
      then Day r mod N = 0 \<and> (\<exists>l. LeadTimeNewOrder r = Some l \<and>
             LeadRemainingEnd r = (if l > 0 then l - 1 else l))
      else OrderQty r = 0 \<and> LeadTimeNewOrder r = None \<and>
           PurchasingCost r = fzero fl \<and> OrderingCost r = fzero fl)"

definition first_ok :: "('g, 'c) loop_state \<Rightarrow> 'c DayRecord \<Rightarrow> bool" where
  "first_ok s r \<longleftrightarrow>
     IncomingToday r = fst (receive_order s) \<and>
     OnHandStart r = fst (snd (receive_order s))"

definition linked :: "('g, 'c) loop_state \<Rightarrow> 'c DayRecord \<Rightarrow> bool" where
  "linked s r \<longleftrightarrow>
     cur_on_hand s = EndingInventory r \<and>
     cur_lead_remaining s = LeadRemainingEnd r \<and>
     (OrderQty r > 0 \<longrightarrow> cur_outstanding_qty s = OrderQty r)"

definition next_ok :: "'c DayRecord \<Rightarrow> 'c DayRecord \<Rightarrow> bool" where
  "next_ok r r' \<longleftrightarrow>
     OnHandStart r' = EndingInventory r + IncomingToday r' \<and>
     (OrderQty r > 0 \<and> LeadRemainingEnd r = 0 \<longrightarrow> IncomingToday r' = OrderQty r)"


section \<open>Lemmas about one day and about the loop\<close>

text \<open>What a successful day computed: every call it made succeeded, and the new variables
  are built from the results.\<close>

lemma day_step_InrD:
  assumes "day_step fl np M N costs ds day s = Inr s'"
  shows "N \<noteq> 0 \<and> (\<exists>demand g1 holding shortage oq lt out2 lead2 pur ordf g2.
      choice np (rng s) (demand_values ds) (demand_probs ds) = Inr (demand, g1) \<and>
      imul fl (fst (snd (receive_order s)) - min (fst (snd (receive_order s))) demand)
        (holding_cost costs) = Inr holding \<and>
      imul fl (max (demand - fst (snd (receive_order s))) 0) (shortage_cost costs) = Inr shortage \<and>
      (if day mod N = 0 \<and> fst (snd (receive_order s)) - min (fst (snd (receive_order s))) demand < M
          \<and> snd (snd (receive_order s)) = 0
       then place_order fl np M costs ds
              (fst (snd (receive_order s)) - min (fst (snd (receive_order s))) demand) g1
       else Inr (0, None, snd (snd (receive_order s)), cur_lead_remaining s, fzero fl, fzero fl, g1))
        = Inr (oq, lt, out2, lead2, pur, ordf, g2) \<and>
      s' = \<lparr>cur_on_hand = fst (snd (receive_order s)) - min (fst (snd (receive_order s))) demand,
            cur_outstanding_qty = out2,
            cur_lead_remaining = (if out2 > 0 \<and> lead2 > 0 then lead2 - 1 else lead2),
            rng = g2,
            records = records s @
              [\<lparr>Day = day, Cycle = (day - 1) div N + 1,
                OnHandStart = fst (snd (receive_order s)),
                IncomingToday = fst (receive_order s),
                Demand = demand, Sales = min (fst (snd (receive_order s))) demand,
                EndingInventory = fst (snd (receive_order s)) - min (fst (snd (receive_order s))) demand,
                ShortageQty = max (demand - fst (snd (receive_order s))) 0,
                HoldingCost = holding, ShortageCost = shortage,
                OrderQty = oq,
                LeadTimeNewOrder = lt,
                LeadRemainingEnd = (if out2 > 0 \<and> lead2 > 0 then lead2 - 1 else lead2),
                PurchasingCost = pur,
                OrderingCost = ordf,
                TotalCostDay = fadd fl (fadd fl (fadd fl holding shortage) pur) ordf\<rparr>],
            total_cost = fadd fl (total_cost s)
               (fadd fl (fadd fl (fadd fl holding shortage) pur) ordf)\<rparr>)"
proof -
  have N: "N \<noteq> 0" using assms by (cases "N = 0") (simp_all add: day_step_def)
  obtain inc oh1 out1 where ro: "receive_order s = (inc, oh1, out1)"
    by (cases "receive_order s") auto
  obtain demand g1 where
    ch: "choice np (rng s) (demand_values ds) (demand_probs ds) = Inr (demand, g1)"
    using assms N
    by (cases "choice np (rng s) (demand_values ds) (demand_probs ds)")
       (auto simp: day_step_def sample_from_discrete_def ro)
  obtain holding where
    ho: "imul fl (oh1 - min oh1 demand) (holding_cost costs) = Inr holding"
    using assms N
    by (cases "imul fl (oh1 - min oh1 demand) (holding_cost costs)")
       (auto simp: day_step_def sample_from_discrete_def ro ch Let_def)
  obtain shortage where
    sh: "imul fl (max (demand - oh1) 0) (shortage_cost costs) = Inr shortage"
    using assms N
    by (cases "imul fl (max (demand - oh1) 0) (shortage_cost costs)")
       (auto simp: day_step_def sample_from_discrete_def ro ch ho Let_def)
  define dec where "dec =
    (if day mod N = 0 \<and> oh1 - min oh1 demand < M \<and> out1 = 0
     then place_order fl np M costs ds (oh1 - min oh1 demand) g1
     else Inr (0, None, out1, cur_lead_remaining s, fzero fl, fzero fl, g1))"
  have step: "day_step fl np M N costs ds day s =
    (case dec of Inl e \<Rightarrow> Inl e
     | Inr (order_qty, lead_time_assigned, outstanding2, lead2, purchasing, ordering_fee, g2) \<Rightarrow>
        Inr \<lparr>cur_on_hand = oh1 - min oh1 demand,
            cur_outstanding_qty = outstanding2,
            cur_lead_remaining = (if outstanding2 > 0 \<and> lead2 > 0 then lead2 - 1 else lead2),
            rng = g2,
            records = records s @
              [\<lparr>Day = day, Cycle = (day - 1) div N + 1,
                OnHandStart = oh1,
                IncomingToday = inc,
                Demand = demand, Sales = min oh1 demand,
                EndingInventory = oh1 - min oh1 demand,
                ShortageQty = max (demand - oh1) 0,
                HoldingCost = holding, ShortageCost = shortage,
                OrderQty = order_qty,
                LeadTimeNewOrder = lead_time_assigned,
                LeadRemainingEnd = (if outstanding2 > 0 \<and> lead2 > 0 then lead2 - 1 else lead2),
                PurchasingCost = purchasing,
                OrderingCost = ordering_fee,
                TotalCostDay = fadd fl (fadd fl (fadd fl holding shortage) purchasing) ordering_fee\<rparr>],
            total_cost = fadd fl (total_cost s)
               (fadd fl (fadd fl (fadd fl holding shortage) purchasing) ordering_fee)\<rparr>)"
    unfolding day_step_def sample_from_discrete_def Let_def ro dec_def
    using N by (simp add: ch ho sh)
  obtain oq lt out2 lead2 pur ordf g2 where
    de: "dec = Inr (oq, lt, out2, lead2, pur, ordf, g2)"
    using assms unfolding step by (cases dec) auto
  have s': "s' = \<lparr>cur_on_hand = oh1 - min oh1 demand,
            cur_outstanding_qty = out2,
            cur_lead_remaining = (if out2 > 0 \<and> lead2 > 0 then lead2 - 1 else lead2),
            rng = g2,
            records = records s @
              [\<lparr>Day = day, Cycle = (day - 1) div N + 1,
                OnHandStart = oh1,
                IncomingToday = inc,
                Demand = demand, Sales = min oh1 demand,
                EndingInventory = oh1 - min oh1 demand,
                ShortageQty = max (demand - oh1) 0,
                HoldingCost = holding, ShortageCost = shortage,
                OrderQty = oq,
                LeadTimeNewOrder = lt,
                LeadRemainingEnd = (if out2 > 0 \<and> lead2 > 0 then lead2 - 1 else lead2),
                PurchasingCost = pur,
                OrderingCost = ordf,
                TotalCostDay = fadd fl (fadd fl (fadd fl holding shortage) pur) ordf\<rparr>],
            total_cost = fadd fl (total_cost s)
               (fadd fl (fadd fl (fadd fl holding shortage) pur) ordf)\<rparr>"
    using assms unfolding step de by simp
  show ?thesis
    unfolding ro fst_conv snd_conv
    using N ch ho sh de[unfolded dec_def] s' by blast
qed


lemma place_order_InrD:
  assumes "place_order fl np M costs ds e g = Inr (oq, lt, out2, lead2, pur, ordf, g2)"
  shows "oq = M - e \<and> out2 = M - e \<and> lt = Some lead2 \<and> ordf = ordering_cost costs \<and>
         choice np g (lead_values ds) (lead_probs ds) = Inr (lead2, g2) \<and>
         imul fl (M - e) (unit_cost costs) = Inr pur"
  using assms unfolding place_order_def sample_from_discrete_def Let_def
  by (simp split: sum.splits prod.splits)

lemma receive_order_incoming_nonneg: "0 \<le> fst (receive_order s)"
  by (simp add: receive_order_def)

lemma receive_order_on_hand:
  "fst (snd (receive_order s)) = cur_on_hand s + fst (receive_order s)"
  by (simp add: receive_order_def)

lemma day_step_record:
  assumes "day_step fl np M N costs ds day s = Inr s'"
  obtains r g1 where
    "records s' = records s @ [r]" "N \<noteq> 0" "Day r = day"
    "day_record_ok fl N r" "first_ok s r" "linked s' r"
    "total_cost s' = fadd fl (total_cost s) (TotalCostDay r)"
    "choice np (rng s) (demand_values ds) (demand_probs ds) = Inr (Demand r, g1)"
    "cur_outstanding_qty s' = snd (snd (receive_order s)) + OrderQty r"
    "OrderQty r > 0 \<longrightarrow> snd (snd (receive_order s)) = 0"
    "OrderQty r = 0 \<longrightarrow> LeadTimeNewOrder r = None \<and> cur_lead_remaining s' =
       (if snd (snd (receive_order s)) > 0 \<and> cur_lead_remaining s > 0
        then cur_lead_remaining s - 1 else cur_lead_remaining s)"
proof -
  from day_step_InrD[OF assms] obtain demand g1 holding shortage oq lt out2 lead2 pur ordf g2
    where N: "N \<noteq> 0"
      and ch: "choice np (rng s) (demand_values ds) (demand_probs ds) = Inr (demand, g1)"
      and de: "(if day mod N = 0 \<and> fst (snd (receive_order s)) - min (fst (snd (receive_order s))) demand < M
          \<and> snd (snd (receive_order s)) = 0
       then place_order fl np M costs ds
              (fst (snd (receive_order s)) - min (fst (snd (receive_order s))) demand) g1
       else Inr (0, None, snd (snd (receive_order s)), cur_lead_remaining s, fzero fl, fzero fl, g1))
        = Inr (oq, lt, out2, lead2, pur, ordf, g2)"
      and s': "s' = \<lparr>cur_on_hand = fst (snd (receive_order s)) - min (fst (snd (receive_order s))) demand,
            cur_outstanding_qty = out2,
            cur_lead_remaining = (if out2 > 0 \<and> lead2 > 0 then lead2 - 1 else lead2),
            rng = g2,
            records = records s @
              [\<lparr>Day = day, Cycle = (day - 1) div N + 1,
                OnHandStart = fst (snd (receive_order s)),
                IncomingToday = fst (receive_order s),
                Demand = demand, Sales = min (fst (snd (receive_order s))) demand,
                EndingInventory = fst (snd (receive_order s)) - min (fst (snd (receive_order s))) demand,
                ShortageQty = max (demand - fst (snd (receive_order s))) 0,
                HoldingCost = holding, ShortageCost = shortage,
                OrderQty = oq,
                LeadTimeNewOrder = lt,
                LeadRemainingEnd = (if out2 > 0 \<and> lead2 > 0 then lead2 - 1 else lead2),
                PurchasingCost = pur,
                OrderingCost = ordf,
                TotalCostDay = fadd fl (fadd fl (fadd fl holding shortage) pur) ordf\<rparr>],
            total_cost = fadd fl (total_cost s)
               (fadd fl (fadd fl (fadd fl holding shortage) pur) ordf)\<rparr>"
    by blast
  define e where "e = fst (snd (receive_order s)) - min (fst (snd (receive_order s))) demand"
  define placed where "placed \<longleftrightarrow> day mod N = 0 \<and> e < M \<and> snd (snd (receive_order s)) = 0"
  note de' = de[folded e_def, folded placed_def]
  have cases: "(placed \<and> oq = M - e \<and> out2 = M - e \<and> lt = Some lead2 \<and> 0 < oq) \<or>
               (\<not> placed \<and> oq = 0 \<and> lt = None \<and> out2 = snd (snd (receive_order s)) \<and>
                lead2 = cur_lead_remaining s \<and> pur = fzero fl \<and> ordf = fzero fl)"
  proof (cases placed)
    case True
    with de' have "place_order fl np M costs ds e g1 = Inr (oq, lt, out2, lead2, pur, ordf, g2)"
      by simp
    from place_order_InrD[OF this] True show ?thesis by (simp add: placed_def)
  next
    case False
    with de' show ?thesis by auto
  qed
  let ?r = "last (records s')"
  have r: "records s' = records s @ [?r]" by (simp add: s')
  have 1: "Day ?r = day" by (simp add: s')
  have 2: "day_record_ok fl N ?r"
    using cases receive_order_incoming_nonneg[of s]
    by (auto simp: day_record_ok_def s' placed_def)
  have 3: "first_ok s ?r" by (simp add: first_ok_def s')
  have 4: "linked s' ?r" using cases by (auto simp: linked_def s')
  have 5: "total_cost s' = fadd fl (total_cost s) (TotalCostDay ?r)" by (simp add: s')
  have 6: "choice np (rng s) (demand_values ds) (demand_probs ds) = Inr (Demand ?r, g1)"
    using ch by (simp add: s')
  have 7: "cur_outstanding_qty s' = snd (snd (receive_order s)) + OrderQty ?r"
    using cases by (auto simp: s' placed_def)
  have 8: "OrderQty ?r > 0 \<longrightarrow> snd (snd (receive_order s)) = 0"
    using cases by (auto simp: s' placed_def)
  have 9: "OrderQty ?r = 0 \<longrightarrow> LeadTimeNewOrder ?r = None \<and> cur_lead_remaining s' =
       (if snd (snd (receive_order s)) > 0 \<and> cur_lead_remaining s > 0
        then cur_lead_remaining s - 1 else cur_lead_remaining s)"
    using cases by (auto simp: s' placed_def)
  from that[OF r N 1 2 3 4 5 6 7 8 9] show thesis .
qed


lemma first_ok_next_ok:
  assumes "linked s r" "first_ok s r'"
  shows "next_ok r r'"
  using assms
  by (auto simp: linked_def first_ok_def next_ok_def receive_order_def)

lemma run_days_Inr:
  assumes "run_days fl np M N costs ds days s = Inr s'"
  shows "\<exists>rs. records s' = records s @ rs \<and> map Day rs = days \<and>
           (\<forall>r\<in>set rs. day_record_ok fl N r \<and>
              (\<exists>g g1. choice np g (demand_values ds) (demand_probs ds) = Inr (Demand r, g1))) \<and>
           total_cost s' = foldl (fadd fl) (total_cost s) (map TotalCostDay rs) \<and>
           successively next_ok rs \<and>
           (rs = [] \<longrightarrow> s' = s) \<and>
           (rs \<noteq> [] \<longrightarrow> first_ok s (hd rs) \<and> linked s' (last rs))"
  using assms
proof (induction days arbitrary: s)
  case Nil
  then show ?case by simp
next
  case (Cons day days)
  from Cons.prems obtain s1 where
    st: "day_step fl np M N costs ds day s = Inr s1" and
    rest: "run_days fl np M N costs ds days s1 = Inr s'"
    by (cases "day_step fl np M N costs ds day s") auto
  from day_step_record[OF st] obtain r g1 where
    r: "records s1 = records s @ [r]" "Day r = day" "day_record_ok fl N r"
       "first_ok s r" "linked s1 r"
       "total_cost s1 = fadd fl (total_cost s) (TotalCostDay r)"
       "choice np (rng s) (demand_values ds) (demand_probs ds) = Inr (Demand r, g1)"
    by blast
  from Cons.IH[OF rest] obtain rs where
    rs: "records s' = records s1 @ rs" "map Day rs = days"
        "\<forall>r\<in>set rs. day_record_ok fl N r \<and>
              (\<exists>g g1. choice np g (demand_values ds) (demand_probs ds) = Inr (Demand r, g1))"
        "total_cost s' = foldl (fadd fl) (total_cost s1) (map TotalCostDay rs)"
        "successively next_ok rs"
        "rs = [] \<longrightarrow> s' = s1"
        "rs \<noteq> [] \<longrightarrow> first_ok s1 (hd rs) \<and> linked s' (last rs)"
    by blast
  have a: "records s' = records s @ (r # rs)" using r(1) rs(1) by simp
  have b: "map Day (r # rs) = day # days" using r(2) rs(2) by simp
  have c: "\<forall>x\<in>set (r # rs). day_record_ok fl N x \<and>
              (\<exists>g g1. choice np g (demand_values ds) (demand_probs ds) = Inr (Demand x, g1))"
    using r(3,7) rs(3) by auto
  have d: "total_cost s' = foldl (fadd fl) (total_cost s) (map TotalCostDay (r # rs))"
    using r(6) rs(4) by simp
  have e: "successively next_ok (r # rs)"
  proof (cases rs)
    case Nil
    then show ?thesis by simp
  next
    case (Cons r' rs')
    with rs(7) have "first_ok s1 r'" by simp
    with r(5) have "next_ok r r'" by (rule first_ok_next_ok)
    with rs(5) Cons show ?thesis by simp
  qed
  have f: "first_ok s (hd (r # rs)) \<and> linked s' (last (r # rs))"
    using r(4,5) rs(6,7) by (cases rs) auto
  have g: "r # rs \<noteq> []" by simp
  show ?case
    by (rule exI[of _ "r # rs"]) (use a b c d e f g in \<open>intro conjI impI; assumption?\<close>, simp_all)
qed

lemma successively_nth:
  "successively P xs \<Longrightarrow> Suc i < length xs \<Longrightarrow> P (xs ! i) (xs ! Suc i)"
proof (induction xs arbitrary: i)
  case Nil
  then show ?case by simp
next
  case (Cons x xs)
  then show ?case
    by (cases i; cases xs) (auto simp: successively_Cons)
qed

lemma simulate_policy_InrD:
  assumes "simulate_policy fl np entropy M N num_cycles costs ini ds seed = Inr (recs, tcost, avg)"
  shows "\<exists>g s. make_rng np entropy seed = Inr g \<and>
           run_days fl np M N costs ds [1..N * num_cycles] (init_loop fl g ini) = Inr s \<and>
           recs = records s \<and> tcost = total_cost s \<and> num_cycles \<noteq> 0 \<and>
           fdiv fl tcost num_cycles = Inr avg"
  using assms unfolding simulate_policy_def Let_def
  by (auto split: sum.splits if_splits)

lemma simulate_policy_records:
  assumes "simulate_policy fl np entropy M N num_cycles costs ini ds seed = Inr (recs, tcost, avg)"
  shows "map Day recs = [1..N * num_cycles]"
    and "\<forall>r\<in>set recs. day_record_ok fl N r \<and>
              (\<exists>g g1. choice np g (demand_values ds) (demand_probs ds) = Inr (Demand r, g1))"
    and "tcost = foldl (fadd fl) (fzero fl) (map TotalCostDay recs)"
    and "successively next_ok recs"
    and "recs \<noteq> [] \<longrightarrow> IncomingToday (hd recs) =
           (if lead_remaining ini = 0 \<and> outstanding_qty ini > 0 then outstanding_qty ini else 0) \<and>
           OnHandStart (hd recs) = on_hand ini + IncomingToday (hd recs)"
    and "num_cycles \<noteq> 0" and "fdiv fl tcost num_cycles = Inr avg"
proof -
  from simulate_policy_InrD[OF assms] obtain g s where
    gs: "run_days fl np M N costs ds [1..N * num_cycles] (init_loop fl g ini) = Inr s"
        "recs = records s" "tcost = total_cost s" "num_cycles \<noteq> 0"
        "fdiv fl tcost num_cycles = Inr avg"
    by blast
  from run_days_Inr[OF gs(1)] obtain rs where
    rs: "records s = records (init_loop fl g ini) @ rs" "map Day rs = [1..N * num_cycles]"
        "\<forall>r\<in>set rs. day_record_ok fl N r \<and>
              (\<exists>g g1. choice np g (demand_values ds) (demand_probs ds) = Inr (Demand r, g1))"
        "total_cost s = foldl (fadd fl) (total_cost (init_loop fl g ini)) (map TotalCostDay rs)"
        "successively next_ok rs"
        "rs \<noteq> [] \<longrightarrow> first_ok (init_loop fl g ini) (hd rs) \<and> linked s (last rs)"
    by blast
  have eq: "recs = rs" using gs(2) rs(1) by (simp add: init_loop_def)
  show "map Day recs = [1..N * num_cycles]" using rs(2) eq by simp
  show "\<forall>r\<in>set recs. day_record_ok fl N r \<and>
              (\<exists>g g1. choice np g (demand_values ds) (demand_probs ds) = Inr (Demand r, g1))"
    using rs(3) eq by simp
  show "tcost = foldl (fadd fl) (fzero fl) (map TotalCostDay recs)"
    using rs(4) gs(3) eq by (simp add: init_loop_def)
  show "successively next_ok recs" using rs(5) eq by simp
  show "recs \<noteq> [] \<longrightarrow> IncomingToday (hd recs) =
           (if lead_remaining ini = 0 \<and> outstanding_qty ini > 0 then outstanding_qty ini else 0) \<and>
           OnHandStart (hd recs) = on_hand ini + IncomingToday (hd recs)"
    using rs(6) eq by (auto simp: first_ok_def receive_order_def init_loop_def)
  show "num_cycles \<noteq> 0" by (rule gs(4))
  show "fdiv fl tcost num_cycles = Inr avg" by (rule gs(5))
qed


lemma run_days_append:
  "run_days fl np M N costs ds (xs @ ys) s =
     (case run_days fl np M N costs ds xs s of
        Inl e \<Rightarrow> Inl e
      | Inr s1 \<Rightarrow> run_days fl np M N costs ds ys s1)"
  by (induction xs arbitrary: s) (auto split: sum.splits)

lemma on_hand_start_nonneg:
  assumes "simulate_policy fl np entropy M N num_cycles costs ini ds seed = Inr (recs, tcost, avg)"
    and "0 \<le> on_hand ini" and "i < length recs"
  shows "0 \<le> OnHandStart (recs ! i)"
  using assms(3)
proof (induction i)
  case 0
  then have "recs \<noteq> []" by auto
  with simulate_policy_records(5)[OF assms(1)] assms(2) 0
  show ?case by (auto simp: hd_conv_nth split: if_splits)
next
  case (Suc i)
  note R = simulate_policy_records[OF assms(1)]
  have n: "next_ok (recs ! i) (recs ! Suc i)" using successively_nth[OF R(4) Suc.prems] .
  have "recs ! i \<in> set recs" "recs ! Suc i \<in> set recs" using Suc.prems by simp_all
  with R(2) have ok: "day_record_ok fl N (recs ! i)" "day_record_ok fl N (recs ! Suc i)" by blast+
  from ok(1) have "0 \<le> EndingInventory (recs ! i)" by (simp add: day_record_ok_def)
  moreover from ok(2) have "0 \<le> IncomingToday (recs ! Suc i)" by (simp add: day_record_ok_def)
  ultimately show ?case using n by (simp add: next_ok_def)
qed

lemma not_isl_obtain:
  assumes "\<not> isl x" obtains y where "x = Inr y"
  using assms by (cases x) auto

lemma day_step_Inr_iff:
  assumes N: "N \<noteq> 0"
  shows "(\<exists>s'. day_step fl np M N costs ds day s = Inr s') \<longleftrightarrow>
         \<not> day_raises fl np M N costs ds day s"
proof
  assume "\<exists>s'. day_step fl np M N costs ds day s = Inr s'"
  then obtain s' where s': "day_step fl np M N costs ds day s = Inr s'" ..
  obtain inc oh1 out1 where ro: "receive_order s = (inc, oh1, out1)"
    by (cases "receive_order s") auto
  from day_step_InrD[OF s', unfolded ro fst_conv snd_conv]
  obtain demand g1 holding shortage oq lt out2 lead2 pur ordf g2 where
    ch: "choice np (rng s) (demand_values ds) (demand_probs ds) = Inr (demand, g1)" and
    ho: "imul fl (oh1 - min oh1 demand) (holding_cost costs) = Inr holding" and
    sh: "imul fl (max (demand - oh1) 0) (shortage_cost costs) = Inr shortage" and
    de: "(if day mod N = 0 \<and> oh1 - min oh1 demand < M \<and> out1 = 0
          then place_order fl np M costs ds (oh1 - min oh1 demand) g1
          else Inr (0, None, out1, cur_lead_remaining s, fzero fl, fzero fl, g1)) =
         Inr (oq, lt, out2, lead2, pur, ordf, g2)"
    by blast
  show "\<not> day_raises fl np M N costs ds day s"
  proof (cases "day mod N = 0 \<and> oh1 - min oh1 demand < M \<and> out1 = 0")
    case True
    with de have "place_order fl np M costs ds (oh1 - min oh1 demand) g1 =
        Inr (oq, lt, out2, lead2, pur, ordf, g2)" by simp
    from place_order_InrD[OF this] have
      "choice np g1 (lead_values ds) (lead_probs ds) = Inr (lead2, g2)"
      "imul fl (M - (oh1 - min oh1 demand)) (unit_cost costs) = Inr pur"
      by simp_all
    then show ?thesis by (simp add: day_raises_def ro ch ho sh)
  next
    case False
    then show ?thesis by (auto simp: day_raises_def ro ch ho sh)
  qed
next
  assume nr: "\<not> day_raises fl np M N costs ds day s"
  obtain inc oh1 out1 where ro: "receive_order s = (inc, oh1, out1)"
    by (cases "receive_order s") auto
  from nr obtain demand g1 where
    ch: "choice np (rng s) (demand_values ds) (demand_probs ds) = Inr (demand, g1)"
    by (cases "choice np (rng s) (demand_values ds) (demand_probs ds)")
       (auto simp: day_raises_def ro)
  from nr have a: "\<not> isl (imul fl (oh1 - min oh1 demand) (holding_cost costs))"
    and b: "\<not> isl (imul fl (max (demand - oh1) 0) (shortage_cost costs))"
    and c: "day mod N = 0 \<and> oh1 - min oh1 demand < M \<and> out1 = 0 \<Longrightarrow>
            \<not> isl (choice np g1 (lead_values ds) (lead_probs ds)) \<and>
            \<not> isl (imul fl (M - (oh1 - min oh1 demand)) (unit_cost costs))"
    by (auto simp: day_raises_def ro ch)
  from a obtain holding where
    ho: "imul fl (oh1 - min oh1 demand) (holding_cost costs) = Inr holding"
    by (rule not_isl_obtain)
  from b obtain shortage where
    sh: "imul fl (max (demand - oh1) 0) (shortage_cost costs) = Inr shortage"
    by (rule not_isl_obtain)
  show "\<exists>s'. day_step fl np M N costs ds day s = Inr s'"
  proof (cases "day mod N = 0 \<and> oh1 - min oh1 demand < M \<and> out1 = 0")
    case True
    from c[OF True] obtain lg pur where
      le: "choice np g1 (lead_values ds) (lead_probs ds) = Inr lg" and
      pu: "imul fl (M - (oh1 - min oh1 demand)) (unit_cost costs) = Inr pur"
      by (metis not_isl_obtain)
    obtain l g2 where lg: "lg = (l, g2)" by (cases lg) auto
    from True show ?thesis
      using N
      by (simp add: day_step_def sample_from_discrete_def place_order_def Let_def ro ch ho sh
            le lg pu)
  next
    case False
    then have "(if day mod N = 0 \<and> oh1 - min oh1 demand < M \<and> out1 = 0
                then place_order fl np M costs ds (oh1 - min oh1 demand) g1
                else Inr (0, None, out1, cur_lead_remaining s, fzero fl, fzero fl, g1)) =
               Inr (0, None, out1, cur_lead_remaining s, fzero fl, fzero fl, g1)"
      by (rule if_not_P)
    then show ?thesis
      using N
      by (simp add: day_step_def sample_from_discrete_def Let_def ro ch ho sh)
  qed
qed

lemma day_step_Inl_iff:
  assumes "N \<noteq> 0"
  shows "(\<exists>e. day_step fl np M N costs ds day s = Inl e) \<longleftrightarrow>
         day_raises fl np M N costs ds day s"
proof -
  have "(\<exists>e. day_step fl np M N costs ds day s = Inl e) \<longleftrightarrow>
        \<not> (\<exists>s'. day_step fl np M N costs ds day s = Inr s')"
    by (cases "day_step fl np M N costs ds day s") auto
  with day_step_Inr_iff[OF assms, of fl np M costs ds day s] show ?thesis by simp
qed

lemma run_days_upto_Inl:
  "run_days fl np M N costs ds [i..n] s = Inl e \<Longrightarrow>
   \<exists>k s'. i - 1 \<le> k \<and> k < n \<and> run_days fl np M N costs ds [i..k] s = Inr s' \<and>
          day_step fl np M N costs ds (k + 1) s' = Inl e"
proof (induction i n arbitrary: s rule: upto.induct)
  case (1 i n)
  show ?case
  proof (cases "i \<le> n")
    case False
    with "1.prems" show ?thesis by simp
  next
    case True
    then have un: "[i..n] = i # [i + 1..n]" by (simp add: upto_rec1)
    show ?thesis
    proof (cases "day_step fl np M N costs ds i s")
      case (Inl e')
      with "1.prems" un have "e' = e" by simp
      with Inl True show ?thesis
        by (intro exI[of _ "i - 1"] exI[of _ s]) simp
    next
      case (Inr s1)
      with "1.prems" un have "run_days fl np M N costs ds [i + 1..n] s1 = Inl e" by simp
      from "1.IH"[OF True this] obtain k s' where
        k: "i \<le> k" "k < n" "run_days fl np M N costs ds [i + 1..k] s1 = Inr s'"
           "day_step fl np M N costs ds (k + 1) s' = Inl e"
        by auto
      from k(1) have "[i..k] = i # [i + 1..k]" by (simp add: upto_rec1)
      with Inr k(3) have "run_days fl np M N costs ds [i..k] s = Inr s'" by simp
      with k show ?thesis by (intro exI[of _ k] exI[of _ s']) simp
    qed
  qed
qed

lemma run_days_upto_fail:
  assumes "i - 1 \<le> k" "k < n"
    and "run_days fl np M N costs ds [i..k] s = Inr s'"
    and "day_step fl np M N costs ds (k + 1) s' = Inl e"
  shows "run_days fl np M N costs ds [i..n] s = Inl e"
proof -
  have "[i..n] = [i..k] @ (k + 1) # [k + 2..n]"
    using upto_split3[of i "k + 1" n] assms(1,2) by (simp add: add.commute)
  then show ?thesis
    using assms(3,4) by (simp add: run_days_append)
qed

text \<open>
  Two environments that agree on the demand draw of a day and whose lead-time draws return
  0 and 1: the day leaves the same variables behind in both, and the two rows differ at
  most in the recorded lead time of the new order.
\<close>

lemma lead_zero_one_same_day:
  assumes d0: "choice np (rng s) (demand_values ds) (demand_probs ds) = Inr (d, g1)"
    and d1: "choice np' (rng s) (demand_values ds) (demand_probs ds) = Inr (d, g1)"
    and l0: "choice np g1 (lead_values ds) (lead_probs ds) = Inr (0, g2)"
    and l1: "choice np' g1 (lead_values ds) (lead_probs ds) = Inr (1, g2)"
    and s0: "day_step fl np M N costs ds day s = Inr s0"
  shows "\<exists>s1. day_step fl np' M N costs ds day s = Inr s1 \<and>
           cur_on_hand s1 = cur_on_hand s0 \<and>
           cur_outstanding_qty s1 = cur_outstanding_qty s0 \<and>
           cur_lead_remaining s1 = cur_lead_remaining s0 \<and>
           rng s1 = rng s0 \<and> total_cost s1 = total_cost s0 \<and>
           butlast (records s1) = butlast (records s0) \<and>
           (last (records s1))\<lparr>LeadTimeNewOrder := None\<rparr> =
           (last (records s0))\<lparr>LeadTimeNewOrder := None\<rparr>"
proof -
  obtain inc oh1 out1 where ro: "receive_order s = (inc, oh1, out1)"
    by (cases "receive_order s") auto
  define e where "e = oh1 - min oh1 d"
  define placed where "placed \<longleftrightarrow> day mod N = 0 \<and> e < M \<and> out1 = 0"
  from day_step_InrD[OF s0, unfolded ro fst_conv snd_conv d0]
  obtain holding shortage oq lt out2 lead2 pur ordf g2' where
    N: "N \<noteq> 0" and
    ho: "imul fl (oh1 - min oh1 d) (holding_cost costs) = Inr holding" and
    sh: "imul fl (max (d - oh1) 0) (shortage_cost costs) = Inr shortage" and
    de: "(if day mod N = 0 \<and> oh1 - min oh1 d < M \<and> out1 = 0
          then place_order fl np M costs ds (oh1 - min oh1 d) g1
          else Inr (0, None, out1, cur_lead_remaining s, fzero fl, fzero fl, g1)) =
         Inr (oq, lt, out2, lead2, pur, ordf, g2')" and
    s0': "s0 = \<lparr>cur_on_hand = oh1 - min oh1 d,
            cur_outstanding_qty = out2,
            cur_lead_remaining = (if out2 > 0 \<and> lead2 > 0 then lead2 - 1 else lead2),
            rng = g2',
            records = records s @
              [\<lparr>Day = day, Cycle = (day - 1) div N + 1,
                OnHandStart = oh1,
                IncomingToday = inc,
                Demand = d, Sales = min oh1 d,
                EndingInventory = oh1 - min oh1 d,
                ShortageQty = max (d - oh1) 0,
                HoldingCost = holding, ShortageCost = shortage,
                OrderQty = oq,
                LeadTimeNewOrder = lt,
                LeadRemainingEnd = (if out2 > 0 \<and> lead2 > 0 then lead2 - 1 else lead2),
                PurchasingCost = pur,
                OrderingCost = ordf,
                TotalCostDay = fadd fl (fadd fl (fadd fl holding shortage) pur) ordf\<rparr>],
            total_cost = fadd fl (total_cost s)
               (fadd fl (fadd fl (fadd fl holding shortage) pur) ordf)\<rparr>"
    by auto
  note de' = de[folded e_def, folded placed_def]
  show ?thesis
  proof (cases placed)
    case True
    with de' have po: "place_order fl np M costs ds e g1 = Inr (oq, lt, out2, lead2, pur, ordf, g2')"
      by simp
    from place_order_InrD[OF po] l0 have
      f: "oq = M - e" "out2 = M - e" "lt = Some 0" "lead2 = 0" "g2' = g2"
         "ordf = ordering_cost costs" "imul fl (M - e) (unit_cost costs) = Inr pur"
      by auto
    from True have pos: "0 < M - e" by (simp add: placed_def)
    have "(if day mod N = 0 \<and> oh1 - min oh1 d < M \<and> out1 = 0
          then place_order fl np' M costs ds (oh1 - min oh1 d) g1
          else Inr (0, None, out1, cur_lead_remaining s, fzero fl, fzero fl, g1)) =
         Inr (M - e, Some 1, M - e, 1, pur, ordering_cost costs, g2)"
      using True f(7) l1
      by (simp add: placed_def e_def place_order_def sample_from_discrete_def Let_def)
    then have "day_step fl np' M N costs ds day s = Inr
         \<lparr>cur_on_hand = oh1 - min oh1 d,
            cur_outstanding_qty = M - e,
            cur_lead_remaining = 0,
            rng = g2,
            records = records s @
              [\<lparr>Day = day, Cycle = (day - 1) div N + 1,
                OnHandStart = oh1,
                IncomingToday = inc,
                Demand = d, Sales = min oh1 d,
                EndingInventory = oh1 - min oh1 d,
                ShortageQty = max (d - oh1) 0,
                HoldingCost = holding, ShortageCost = shortage,
                OrderQty = M - e,
                LeadTimeNewOrder = Some 1,
                LeadRemainingEnd = 0,
                PurchasingCost = pur,
                OrderingCost = ordering_cost costs,
                TotalCostDay = fadd fl (fadd fl (fadd fl holding shortage) pur)
                   (ordering_cost costs)\<rparr>],
            total_cost = fadd fl (total_cost s)
               (fadd fl (fadd fl (fadd fl holding shortage) pur) (ordering_cost costs))\<rparr>"
      using N pos
      by (simp add: day_step_def sample_from_discrete_def Let_def ro d1 ho sh)
    then show ?thesis
      using pos by (simp add: s0' f)
  next
    case False
    with de' have f: "oq = 0" "lt = None" "out2 = out1" "lead2 = cur_lead_remaining s"
      "pur = fzero fl" "ordf = fzero fl" "g2' = g1"
      by auto
    from False have "(if day mod N = 0 \<and> oh1 - min oh1 d < M \<and> out1 = 0
          then place_order fl np' M costs ds (oh1 - min oh1 d) g1
          else Inr (0, None, out1, cur_lead_remaining s, fzero fl, fzero fl, g1)) =
         Inr (0, None, out1, cur_lead_remaining s, fzero fl, fzero fl, g1)"
      unfolding placed_def e_def by (rule if_not_P)
    then have "day_step fl np' M N costs ds day s = Inr s0"
      using N
      by (simp add: day_step_def sample_from_discrete_def Let_def ro d1 ho sh s0' f)
    then show ?thesis by simp
  qed
qed

section \<open>Concrete runs\<close>

text \<open>The runs named above, evaluated by rewriting with the definitions.\<close>

lemmas eval_defs = simulate_policy_def make_rng_def counter_gen_def real_ops_def init_loop_def
  day_step_def receive_order_def place_order_def sample_from_discrete_def Let_def
  DEFAULT_DISTRIBUTIONS_def DEFAULT_COSTS_def DEFAULT_INITIAL_STATE_def

lemma run_default:
  "simulate_policy real_ops counter_gen 0 11 2 2 DEFAULT_COSTS DEFAULT_INITIAL_STATE
     DEFAULT_DISTRIBUTIONS (Some 0) = Inr (default_run, 670, 335)"
  by (simp add: eval_defs default_run_def upto_rec1)

lemma run_late_arrival:
  "simulate_policy real_ops counter_gen 0 5 1 1 DEFAULT_COSTS
     \<lparr>on_hand = 0, outstanding_qty = 2, lead_remaining = 0\<rparr>
     \<lparr>demand_values = [3], demand_probs = [1], lead_values = [1], lead_probs = [1]\<rparr>
     (Some 0) = Inr ([late_arrival_day], 270, 270)"
  by (simp add: eval_defs late_arrival_day_def)

lemma run_negative_demand:
  "simulate_policy real_ops counter_gen 0 5 1 1 DEFAULT_COSTS
     \<lparr>on_hand = 5, outstanding_qty = 0, lead_remaining = 0\<rparr>
     \<lparr>demand_values = [- 2], demand_probs = [1], lead_values = [1], lead_probs = [1]\<rparr>
     (Some 0) = Inr ([negative_demand_day], 140, 140)"
  by (simp add: eval_defs negative_demand_day_def)

lemma run_zero_lead:
  "simulate_policy real_ops counter_gen 0 7 1 2 DEFAULT_COSTS
     \<lparr>on_hand = 5, outstanding_qty = 0, lead_remaining = 0\<rparr>
     \<lparr>demand_values = [0], demand_probs = [1], lead_values = [0], lead_probs = [1]\<rparr>
     (Some 0) = Inr (zero_lead_run, 350, 175)"
  by (simp add: eval_defs zero_lead_run_def upto_rec1)

section \<open>The claims\<close>

subsection \<open>Shortage quantity\<close>

text \<open>
  Claim C1, as amended. The claim's formula subtracts \<open>OnHandStart + IncomingToday\<close> from
  the demand, but the recorded on-hand at the start of the day is taken after the arrival
  step and already contains the units received today. What holds for every row of every
  run that returns: \<open>ShortageQty = max (Demand - OnHandStart) 0\<close>, where \<open>OnHandStart\<close> is
  the inventory carried over (the initial on-hand for the first row, the previous row's
  ending inventory afterwards) plus \<open>IncomingToday\<close>.
\<close>

theorem shortage_from_on_hand_start:
  assumes "simulate_policy fl np entropy M N num_cycles costs ini ds seed = Inr (recs, tcost, avg)"
  shows "(\<forall>r\<in>set recs. ShortageQty r = max (Demand r - OnHandStart r) 0) \<and>
         (recs \<noteq> [] \<longrightarrow> OnHandStart (hd recs) = on_hand ini + IncomingToday (hd recs)) \<and>
         (\<forall>i. Suc i < length recs \<longrightarrow>
            OnHandStart (recs ! Suc i) = EndingInventory (recs ! i) + IncomingToday (recs ! Suc i))"
proof -
  note R = simulate_policy_records[OF assms]
  have a: "\<forall>r\<in>set recs. ShortageQty r = max (Demand r - OnHandStart r) 0"
    using R(2) by (simp add: day_record_ok_def)
  have c: "OnHandStart (recs ! Suc i) = EndingInventory (recs ! i) + IncomingToday (recs ! Suc i)"
    if "Suc i < length recs" for i
    using successively_nth[OF R(4) that] by (simp add: next_ok_def)
  from a R(5) c show ?thesis by simp
qed

text \<open>The theorem on the run of \<open>late_arrival_day\<close>.\<close>

theorem shortage_from_on_hand_start_witness:
  "simulate_policy real_ops counter_gen 0 5 1 1 DEFAULT_COSTS
     \<lparr>on_hand = 0, outstanding_qty = 2, lead_remaining = 0\<rparr>
     \<lparr>demand_values = [3], demand_probs = [1], lead_values = [1], lead_probs = [1]\<rparr>
     (Some 0) = Inr ([late_arrival_day], 270, 270) \<and>
   ShortageQty late_arrival_day = max (Demand late_arrival_day - OnHandStart late_arrival_day) 0 \<and>
   OnHandStart late_arrival_day = 0 + IncomingToday late_arrival_day"
  using run_late_arrival shortage_from_on_hand_start [OF run_late_arrival]
  by simp

text \<open>
  The formula of the claim fails on that run: 2 units arrive, the on-hand at the start of
  the day is recorded as 2, the demand is 3 and the shortage is 1, while
  \<open>max (3 - (2 + 2)) 0 = 0\<close>.
\<close>

theorem shortage_formula_counterexample:
  "simulate_policy real_ops counter_gen 0 5 1 1 DEFAULT_COSTS
     \<lparr>on_hand = 0, outstanding_qty = 2, lead_remaining = 0\<rparr>
     \<lparr>demand_values = [3], demand_probs = [1], lead_values = [1], lead_probs = [1]\<rparr>
     (Some 0) = Inr ([late_arrival_day], 270, 270) \<and>
   ShortageQty late_arrival_day = 1 \<and>
   max (Demand late_arrival_day - (OnHandStart late_arrival_day + IncomingToday late_arrival_day)) 0
     = 0"
  using run_late_arrival by (simp add: late_arrival_day_def)

subsection \<open>Invalid configurations\<close>

text \<open>
  Claim C2, as amended. \<^verbatim>\<open>simulate_policy\<close> validates nothing itself. A call either
  returns a complete result, one row for each day of \<open>1..N * num_cycles\<close> with the totals,
  or fails and returns nothing, and it fails with an exception exactly when a step it
  reaches raises that exception: the generator rejects the seed; on some day \<open>k + 1\<close>,
  after the days \<open>1..k\<close> went through, the loop body raises; or, after the last day,
  \<open>num_cycles\<close> is zero or the final division raises. The loop body of a simulated day
  raises exactly when the demand draw is rejected, one of the products for the holding, the
  shortage or, for a new order, the purchasing cost overflows, or an order is being placed
  and its lead-time draw is rejected. No sign of a cost, of an initial quantity or of \<open>N\<close>
  is among the causes.
\<close>

theorem failure_only_where_raised:
  "(simulate_policy fl np entropy M N num_cycles costs ini ds seed = Inl e \<longleftrightarrow>
      make_rng np entropy seed = Inl e \<or>
      (\<exists>g. make_rng np entropy seed = Inr g \<and>
         ((\<exists>k s. 0 \<le> k \<and> k < N * num_cycles \<and>
              run_days fl np M N costs ds [1..k] (init_loop fl g ini) = Inr s \<and>
              day_step fl np M N costs ds (k + 1) s = Inl e) \<or>
          (\<exists>s. run_days fl np M N costs ds [1..N * num_cycles] (init_loop fl g ini) = Inr s \<and>
              (num_cycles = 0 \<and> e = ZeroDivisionError \<or>
               num_cycles \<noteq> 0 \<and> fdiv fl (total_cost s) num_cycles = Inl e))))) \<and>
   (N \<noteq> 0 \<longrightarrow>
      ((\<exists>e. day_step fl np M N costs ds day s = Inl e) \<longleftrightarrow>
       day_raises fl np M N costs ds day s)) \<and>
   (simulate_policy fl np entropy M N num_cycles costs ini ds seed = Inr (recs, tcost, avg) \<longrightarrow>
      map Day recs = [1..N * num_cycles])"
proof (intro conjI impI)
  show "simulate_policy fl np entropy M N num_cycles costs ini ds seed = Inl e \<longleftrightarrow>
      make_rng np entropy seed = Inl e \<or>
      (\<exists>g. make_rng np entropy seed = Inr g \<and>
         ((\<exists>k s. 0 \<le> k \<and> k < N * num_cycles \<and>
              run_days fl np M N costs ds [1..k] (init_loop fl g ini) = Inr s \<and>
              day_step fl np M N costs ds (k + 1) s = Inl e) \<or>
          (\<exists>s. run_days fl np M N costs ds [1..N * num_cycles] (init_loop fl g ini) = Inr s \<and>
              (num_cycles = 0 \<and> e = ZeroDivisionError \<or>
               num_cycles \<noteq> 0 \<and> fdiv fl (total_cost s) num_cycles = Inl e))))"
  proof (cases "make_rng np entropy seed")
    case (Inl e')
    then show ?thesis by (auto simp: simulate_policy_def)
  next
    case (Inr g)
    let ?run = "run_days fl np M N costs ds [1..N * num_cycles] (init_loop fl g ini)"
    show ?thesis
    proof (cases ?run)
      case (Inl e')
      from run_days_upto_Inl[OF Inl] obtain k s' where
        k: "0 \<le> k" "k < N * num_cycles"
           "run_days fl np M N costs ds [1..k] (init_loop fl g ini) = Inr s'"
           "day_step fl np M N costs ds (k + 1) s' = Inl e'"
        by auto
      have uniq: "e'' = e'" if "0 \<le> k'" "k' < N * num_cycles"
          "run_days fl np M N costs ds [1..k'] (init_loop fl g ini) = Inr s''"
          "day_step fl np M N costs ds (k' + 1) s'' = Inl e''" for k' s'' e''
        using run_days_upto_fail[of 1 k' "N * num_cycles", OF _ that(2,3,4)] that(1) Inl
        by simp
      have sim: "simulate_policy fl np entropy M N num_cycles costs ini ds seed = Inl e'"
        using Inr Inl by (simp add: simulate_policy_def)
      show ?thesis
      proof
        assume "simulate_policy fl np entropy M N num_cycles costs ini ds seed = Inl e"
        with sim have "e' = e" by simp
        with k Inr show "make_rng np entropy seed = Inl e \<or>
          (\<exists>g. make_rng np entropy seed = Inr g \<and>
           ((\<exists>k s. 0 \<le> k \<and> k < N * num_cycles \<and>
              run_days fl np M N costs ds [1..k] (init_loop fl g ini) = Inr s \<and>
              day_step fl np M N costs ds (k + 1) s = Inl e) \<or>
            (\<exists>s. run_days fl np M N costs ds [1..N * num_cycles] (init_loop fl g ini) = Inr s \<and>
              (num_cycles = 0 \<and> e = ZeroDivisionError \<or>
               num_cycles \<noteq> 0 \<and> fdiv fl (total_cost s) num_cycles = Inl e))))"
          by blast
      next
        assume "make_rng np entropy seed = Inl e \<or>
          (\<exists>g. make_rng np entropy seed = Inr g \<and>
           ((\<exists>k s. 0 \<le> k \<and> k < N * num_cycles \<and>
              run_days fl np M N costs ds [1..k] (init_loop fl g ini) = Inr s \<and>
              day_step fl np M N costs ds (k + 1) s = Inl e) \<or>
            (\<exists>s. run_days fl np M N costs ds [1..N * num_cycles] (init_loop fl g ini) = Inr s \<and>
              (num_cycles = 0 \<and> e = ZeroDivisionError \<or>
               num_cycles \<noteq> 0 \<and> fdiv fl (total_cost s) num_cycles = Inl e))))"
        with Inr Inl have "\<exists>k s. 0 \<le> k \<and> k < N * num_cycles \<and>
              run_days fl np M N costs ds [1..k] (init_loop fl g ini) = Inr s \<and>
              day_step fl np M N costs ds (k + 1) s = Inl e"
          by auto
        with uniq have "e = e'" by blast
        with sim show "simulate_policy fl np entropy M N num_cycles costs ini ds seed = Inl e"
          by simp
      qed
    next
      case run: (Inr sF)
      have nofail: False if "0 \<le> k'" "k' < N * num_cycles"
          "run_days fl np M N costs ds [1..k'] (init_loop fl g ini) = Inr s''"
          "day_step fl np M N costs ds (k' + 1) s'' = Inl e''" for k' s'' e''
        using run_days_upto_fail[of 1 k' "N * num_cycles", OF _ that(2,3,4)] that(1) run
        by simp
      have sim: "simulate_policy fl np entropy M N num_cycles costs ini ds seed =
          (if num_cycles = 0 then Inl ZeroDivisionError
           else case fdiv fl (total_cost sF) num_cycles of
                  Inl e \<Rightarrow> Inl e
                | Inr a \<Rightarrow> Inr (records sF, total_cost sF, a))"
        using Inr run by (simp add: simulate_policy_def)
      have l: "simulate_policy fl np entropy M N num_cycles costs ini ds seed = Inl e \<longleftrightarrow>
          (num_cycles = 0 \<and> e = ZeroDivisionError \<or>
           num_cycles \<noteq> 0 \<and> fdiv fl (total_cost sF) num_cycles = Inl e)"
        unfolding sim by (auto split: sum.splits)
      show ?thesis
        unfolding l using Inr run nofail by auto
    qed
  qed
next
  assume "N \<noteq> 0"
  then show "(\<exists>e. day_step fl np M N costs ds day s = Inl e) \<longleftrightarrow>
       day_raises fl np M N costs ds day s"
    by (rule day_step_Inl_iff)
next
  assume "simulate_policy fl np entropy M N num_cycles costs ini ds seed = Inr (recs, tcost, avg)"
  then show "map Day recs = [1..N * num_cycles]"
    by (rule simulate_policy_records(1))
qed

text \<open>
  The theorem on concrete calls: a negative seed; a demand distribution with two values and
  one probability; zero cycles; a lead-time distribution without probabilities, which makes
  the call fail when an order is placed on day 1 (\<open>M = 7\<close>) and is never noticed when no
  order is placed (\<open>M = 5\<close>).
\<close>

theorem failure_only_where_raised_witness:
  "simulate_policy real_ops counter_gen 0 5 1 1 DEFAULT_COSTS
     \<lparr>on_hand = 5, outstanding_qty = 0, lead_remaining = 0\<rparr>
     \<lparr>demand_values = [0], demand_probs = [1], lead_values = [1], lead_probs = [1]\<rparr>
     (Some (- 1)) = Inl ValueError \<and>
   simulate_policy real_ops counter_gen 0 5 1 1 DEFAULT_COSTS
     \<lparr>on_hand = 5, outstanding_qty = 0, lead_remaining = 0\<rparr>
     \<lparr>demand_values = [0, 1], demand_probs = [1], lead_values = [1], lead_probs = [1]\<rparr>
     (Some 0) = Inl ValueError \<and>
   simulate_policy real_ops counter_gen 0 5 1 0 DEFAULT_COSTS
     \<lparr>on_hand = 5, outstanding_qty = 0, lead_remaining = 0\<rparr>
     \<lparr>demand_values = [0], demand_probs = [1], lead_values = [1], lead_probs = [1]\<rparr>
     (Some 0) = Inl ZeroDivisionError \<and>
   simulate_policy real_ops counter_gen 0 7 1 1 DEFAULT_COSTS
     \<lparr>on_hand = 5, outstanding_qty = 0, lead_remaining = 0\<rparr>
     \<lparr>demand_values = [0], demand_probs = [1], lead_values = [1], lead_probs = []\<rparr>
     (Some 0) = Inl ValueError \<and>
   day_raises real_ops counter_gen 7 1 DEFAULT_COSTS
     \<lparr>demand_values = [0], demand_probs = [1], lead_values = [1], lead_probs = []\<rparr> (0 + 1)
     (init_loop real_ops 0 \<lparr>on_hand = 5, outstanding_qty = 0, lead_remaining = 0\<rparr>) \<and>
   (\<exists>recs tcost avg.
      simulate_policy real_ops counter_gen 0 5 1 1 DEFAULT_COSTS
        \<lparr>on_hand = 5, outstanding_qty = 0, lead_remaining = 0\<rparr>
        \<lparr>demand_values = [0], demand_probs = [1], lead_values = [1], lead_probs = []\<rparr>
        (Some 0) = Inr (recs, tcost, avg) \<and>
      map Day recs = [1..1 * 1])"
proof -
  let ?ini = "\<lparr>on_hand = 5, outstanding_qty = 0, lead_remaining = 0\<rparr>"
  let ?ds = "\<lparr>demand_values = [0], demand_probs = [1::real], lead_values = [1],
              lead_probs = [1::real]\<rparr>"
  let ?bad_demand = "\<lparr>demand_values = [0, 1], demand_probs = [1::real], lead_values = [1],
               lead_probs = [1::real]\<rparr>"
  let ?bad_lead = "\<lparr>demand_values = [0], demand_probs = [1::real], lead_values = [1],
               lead_probs = [] :: real list\<rparr>"
  let ?s0 = "init_loop real_ops (0 :: nat) ?ini"
  have neg_seed: "make_rng counter_gen 0 (Some (- 1)) = Inl ValueError"
    by (simp add: make_rng_def counter_gen_def)
  have seed: "make_rng counter_gen 0 (Some 0) = Inr 0"
    by (simp add: make_rng_def counter_gen_def)
  have k: "(0 :: int) \<le> 0" "(0 :: int) < 1 * 1" by simp_all
  have pre1: "run_days real_ops counter_gen 5 1 DEFAULT_COSTS ?bad_demand [1..0] ?s0 = Inr ?s0"
    by simp
  have pre2: "run_days real_ops counter_gen 7 1 DEFAULT_COSTS ?bad_lead [1..0] ?s0 = Inr ?s0"
    by simp
  have pre3: "run_days real_ops counter_gen 5 1 DEFAULT_COSTS ?ds [1..1 * 0] ?s0 = Inr ?s0"
    by simp
  have day1: "day_step real_ops counter_gen 5 1 DEFAULT_COSTS ?bad_demand (0 + 1) ?s0 =
      Inl ValueError"
    by (simp add: eval_defs)
  have day2: "day_step real_ops counter_gen 7 1 DEFAULT_COSTS ?bad_lead (0 + 1) ?s0 =
      Inl ValueError"
    by (simp add: eval_defs)
  have ret: "simulate_policy real_ops counter_gen 0 5 1 1 DEFAULT_COSTS ?ini ?bad_lead (Some 0) =
      Inr ([\<lparr>Day = 1, Cycle = 1, OnHandStart = 5, IncomingToday = 0, Demand = 0, Sales = 0,
              EndingInventory = 5, ShortageQty = 0, HoldingCost = 100, ShortageCost = 0,
              OrderQty = 0, LeadTimeNewOrder = None, LeadRemainingEnd = 0, PurchasingCost = 0,
              OrderingCost = 0, TotalCostDay = 100\<rparr>], 100, 100)"
    by (simp add: eval_defs)
  have a: "simulate_policy real_ops counter_gen 0 5 1 1 DEFAULT_COSTS ?ini ?ds (Some (- 1)) =
      Inl ValueError"
    using failure_only_where_raised [where fl = real_ops and np = counter_gen and entropy = 0
        and M = 5 and N = 1 and num_cycles = 1 and costs = DEFAULT_COSTS and ini = ?ini
        and ds = ?ds and seed = "Some (- 1)" and e = ValueError, THEN conjunct1] neg_seed
    by blast
  have b: "simulate_policy real_ops counter_gen 0 5 1 1 DEFAULT_COSTS ?ini ?bad_demand (Some 0) =
      Inl ValueError"
    using failure_only_where_raised [where fl = real_ops and np = counter_gen and entropy = 0
        and M = 5 and N = 1 and num_cycles = 1 and costs = DEFAULT_COSTS and ini = ?ini
        and ds = ?bad_demand and seed = "Some 0" and e = ValueError, THEN conjunct1]
      seed k pre1 day1
    by blast
  have c: "simulate_policy real_ops counter_gen 0 5 1 0 DEFAULT_COSTS ?ini ?ds (Some 0) =
      Inl ZeroDivisionError"
    using failure_only_where_raised [where fl = real_ops and np = counter_gen and entropy = 0
        and M = 5 and N = 1 and num_cycles = 0 and costs = DEFAULT_COSTS and ini = ?ini
        and ds = ?ds and seed = "Some 0" and e = ZeroDivisionError, THEN conjunct1]
      seed pre3
    by blast
  have d: "simulate_policy real_ops counter_gen 0 7 1 1 DEFAULT_COSTS ?ini ?bad_lead (Some 0) =
      Inl ValueError"
    using failure_only_where_raised [where fl = real_ops and np = counter_gen and entropy = 0
        and M = 7 and N = 1 and num_cycles = 1 and costs = DEFAULT_COSTS and ini = ?ini
        and ds = ?bad_lead and seed = "Some 0" and e = ValueError, THEN conjunct1]
      seed k pre2 day2
    by blast
  have n: "(1 :: int) \<noteq> 0" by simp
  have e: "day_raises real_ops counter_gen 7 1 DEFAULT_COSTS ?bad_lead (0 + 1) ?s0"
    using failure_only_where_raised [where fl = real_ops and np = counter_gen and M = 7 and N = 1
        and costs = DEFAULT_COSTS and ds = ?bad_lead and day = "0 + 1" and s = ?s0,
        THEN conjunct2, THEN conjunct1] n day2
    by blast
  have f: "\<exists>recs tcost avg.
      simulate_policy real_ops counter_gen 0 5 1 1 DEFAULT_COSTS ?ini ?bad_lead (Some 0) =
        Inr (recs, tcost, avg) \<and> map Day recs = [1..1 * 1]"
    using failure_only_where_raised [where fl = real_ops and np = counter_gen and entropy = 0
        and M = 5 and N = 1 and num_cycles = 1 and costs = DEFAULT_COSTS and ini = ?ini
        and ds = ?bad_lead and seed = "Some 0", THEN conjunct2, THEN conjunct2] ret
    by blast
  from a b c d e f show ?thesis by (intro conjI)
qed

text \<open>
  The claim fails on two calls it lists as invalid. With negative cost parameters the run
  returns a row and negative totals; with \<open>N = 0\<close> it returns no row and totals of zero.
\<close>

theorem invalid_configuration_counterexample:
  "simulate_policy real_ops counter_gen 0 5 1 1
     \<lparr>holding_cost = - 20, shortage_cost = - 10, unit_cost = - 50, ordering_cost = - 10\<rparr>
     \<lparr>on_hand = 5, outstanding_qty = 0, lead_remaining = 0\<rparr>
     \<lparr>demand_values = [0], demand_probs = [1], lead_values = [1], lead_probs = [1]\<rparr>
     (Some 0) =
   Inr ([\<lparr>Day = 1, Cycle = 1, OnHandStart = 5, IncomingToday = 0, Demand = 0, Sales = 0,
           EndingInventory = 5, ShortageQty = 0, HoldingCost = - 100, ShortageCost = 0,
           OrderQty = 0, LeadTimeNewOrder = None, LeadRemainingEnd = 0, PurchasingCost = 0,
           OrderingCost = 0, TotalCostDay = - 100\<rparr>], - 100, - 100) \<and>
   simulate_policy real_ops counter_gen 0 5 0 1 DEFAULT_COSTS
     \<lparr>on_hand = 5, outstanding_qty = 0, lead_remaining = 0\<rparr>
     \<lparr>demand_values = [0], demand_probs = [1], lead_values = [1], lead_probs = [1]\<rparr>
     (Some 0) = Inr ([], 0, 0)"
  by (simp add: eval_defs)

subsection \<open>Reproducibility\<close>

text \<open>
  Claim C3. With a concrete seed the result is a function of the arguments alone: the
  generator comes from the seed, and the entropy of the operating system, the one input
  that differs between two invocations, is not used.
\<close>

theorem seeded_run_reproducible:
  "simulate_policy fl np entropy_a M N num_cycles costs ini ds (Some seed) =
   simulate_policy fl np entropy_b M N num_cycles costs ini ds (Some seed)"
  by (simp add: simulate_policy_def make_rng_def)

text \<open>The theorem on the default configuration, for two different entropy states.\<close>

theorem seeded_run_reproducible_witness:
  "simulate_policy real_ops counter_gen 0 11 2 2 DEFAULT_COSTS DEFAULT_INITIAL_STATE
     DEFAULT_DISTRIBUTIONS (Some 0) =
   simulate_policy real_ops counter_gen 7 11 2 2 DEFAULT_COSTS DEFAULT_INITIAL_STATE
     DEFAULT_DISTRIBUTIONS (Some 0)"
  using seeded_run_reproducible [where fl = real_ops and np = counter_gen and entropy_a = 0
    and entropy_b = 7 and M = 11 and N = 2 and num_cycles = 2 and costs = DEFAULT_COSTS
    and ini = DEFAULT_INITIAL_STATE and ds = DEFAULT_DISTRIBUTIONS and seed = 0]
  by simp

subsection \<open>Cost additivity\<close>

text \<open>
  Claim C4. In every run that returns, each row's total is
  \<open>((HoldingCost + ShortageCost) + PurchasingCost) + OrderingCost\<close> in the float addition
  of the environment, the returned total is the rows' totals added from \<open>0.0\<close> in day
  order, and the average is that total divided by \<open>num_cycles\<close>, which is not zero.
\<close>

theorem cost_additivity:
  assumes "simulate_policy fl np entropy M N num_cycles costs ini ds seed = Inr (recs, tcost, avg)"
  shows "(\<forall>r\<in>set recs. TotalCostDay r =
            fadd fl (fadd fl (fadd fl (HoldingCost r) (ShortageCost r)) (PurchasingCost r))
              (OrderingCost r)) \<and>
         tcost = foldl (fadd fl) (fzero fl) (map TotalCostDay recs) \<and>
         num_cycles \<noteq> 0 \<and> fdiv fl tcost num_cycles = Inr avg"
proof -
  note R = simulate_policy_records[OF assms]
  have "\<forall>r\<in>set recs. TotalCostDay r =
            fadd fl (fadd fl (fadd fl (HoldingCost r) (ShortageCost r)) (PurchasingCost r))
              (OrderingCost r)"
    using R(2) by (simp add: day_record_ok_def)
  with R(3,6,7) show ?thesis by simp
qed

text \<open>The theorem on \<open>default_run\<close>: the fourth row, the total and the average.\<close>

theorem cost_additivity_witness:
  "simulate_policy real_ops counter_gen 0 11 2 2 DEFAULT_COSTS DEFAULT_INITIAL_STATE
     DEFAULT_DISTRIBUTIONS (Some 0) = Inr (default_run, 670, 335) \<and>
   TotalCostDay (default_run ! 3) =
     fadd real_ops
       (fadd real_ops
          (fadd real_ops (HoldingCost (default_run ! 3)) (ShortageCost (default_run ! 3)))
          (PurchasingCost (default_run ! 3)))
       (OrderingCost (default_run ! 3)) \<and>
   (670 :: real) = foldl (fadd real_ops) (fzero real_ops) (map TotalCostDay default_run) \<and>
   fdiv real_ops 670 2 = Inr 335"
proof -
  note t = cost_additivity [OF run_default]
  have m: "default_run ! 3 \<in> set default_run" by (simp add: default_run_def)
  from t have "\<forall>r\<in>set default_run. TotalCostDay r =
      fadd real_ops (fadd real_ops (fadd real_ops (HoldingCost r) (ShortageCost r))
        (PurchasingCost r)) (OrderingCost r)"
    by (rule conjunct1)
  from this m have a: "TotalCostDay (default_run ! 3) =
     fadd real_ops
       (fadd real_ops
          (fadd real_ops (HoldingCost (default_run ! 3)) (ShortageCost (default_run ! 3)))
          (PurchasingCost (default_run ! 3)))
       (OrderingCost (default_run ! 3))"
    by (rule bspec)
  from t have b: "(670 :: real) =
      foldl (fadd real_ops) (fzero real_ops) (map TotalCostDay default_run)"
    by (rule conjunct2 [THEN conjunct1])
  from t have c: "fdiv real_ops 670 2 = Inr 335"
    by (rule conjunct2 [THEN conjunct2, THEN conjunct2])
  from run_default a b c show ?thesis by (intro conjI)
qed

subsection \<open>One order in flight\<close>

text \<open>
  Claim C5. Take a run that returns and a day \<open>k + 1\<close> of it. The variables at the start
  of that day are those reached after the days \<open>1..k\<close>, and the outstanding quantity at
  the ordering decision is the third component of \<open>receive_order\<close>. If the day's row
  records an order, that quantity was zero; if it was positive, no order is recorded, the
  outstanding quantity is kept and the remaining lead time is only decremented. In both
  cases the quantity in flight after the day is the quantity before the decision plus
  the new order, of which at most one is not zero.
\<close>

theorem single_order_in_flight:
  assumes "simulate_policy fl np entropy M N num_cycles costs ini ds seed = Inr (recs, tcost, avg)"
    and "0 \<le> k" and "k < N * num_cycles"
  shows "\<exists>g s s'.
           make_rng np entropy seed = Inr g \<and>
           run_days fl np M N costs ds [1..k] (init_loop fl g ini) = Inr s \<and>
           day_step fl np M N costs ds (k + 1) s = Inr s' \<and>
           last (records s') = recs ! nat k \<and>
           (0 < OrderQty (recs ! nat k) \<longrightarrow> snd (snd (receive_order s)) = 0) \<and>
           cur_outstanding_qty s' = snd (snd (receive_order s)) + OrderQty (recs ! nat k) \<and>
           (0 < snd (snd (receive_order s)) \<longrightarrow>
              OrderQty (recs ! nat k) = 0 \<and> LeadTimeNewOrder (recs ! nat k) = None \<and>
              cur_lead_remaining s' =
                (if 0 < cur_lead_remaining s then cur_lead_remaining s - 1
                 else cur_lead_remaining s))"
proof -
  from simulate_policy_InrD[OF assms(1)] obtain g sF where
    g: "make_rng np entropy seed = Inr g" and
    run: "run_days fl np M N costs ds [1..N * num_cycles] (init_loop fl g ini) = Inr sF" and
    recs: "recs = records sF"
    by blast
  have split: "[1..N * num_cycles] = [1..k] @ (k + 1) # [k + 2..N * num_cycles]"
    using upto_split3[of 1 "k + 1" "N * num_cycles"] assms(2,3) by (simp add: add.commute)
  from run obtain s where
    pre: "run_days fl np M N costs ds [1..k] (init_loop fl g ini) = Inr s" and
    post: "run_days fl np M N costs ds ((k + 1) # [k + 2..N * num_cycles]) s = Inr sF"
    unfolding split run_days_append
    by (cases "run_days fl np M N costs ds [1..k] (init_loop fl g ini)") auto
  from post obtain s' where
    st: "day_step fl np M N costs ds (k + 1) s = Inr s'" and
    rest: "run_days fl np M N costs ds [k + 2..N * num_cycles] s' = Inr sF"
    by (cases "day_step fl np M N costs ds (k + 1) s") auto
  from run_days_Inr[OF pre] obtain rs1 where
    rs1: "records s = rs1" "map Day rs1 = [1..k]"
    by (auto simp: init_loop_def)
  have len: "length rs1 = nat k"
  proof -
    have "length rs1 = length (map Day rs1)" by simp
    also have "\<dots> = nat k" unfolding rs1(2) by simp
    finally show ?thesis .
  qed
  from day_step_record[OF st] obtain r where
    r: "records s' = records s @ [r]"
       "cur_outstanding_qty s' = snd (snd (receive_order s)) + OrderQty r"
       "OrderQty r > 0 \<longrightarrow> snd (snd (receive_order s)) = 0"
       "OrderQty r = 0 \<longrightarrow> LeadTimeNewOrder r = None \<and> cur_lead_remaining s' =
         (if snd (snd (receive_order s)) > 0 \<and> cur_lead_remaining s > 0
          then cur_lead_remaining s - 1 else cur_lead_remaining s)"
       "day_record_ok fl N r"
    by blast
  from run_days_Inr[OF rest] obtain rs2 where rs2: "records sF = records s' @ rs2"
    by blast
  have nth: "recs ! nat k = r"
    using recs rs2 r(1) rs1(1) len by (simp add: nth_append)
  have last: "last (records s') = r" using r(1) by simp
  have nonneg: "0 \<le> OrderQty r" using r(5) by (auto simp: day_record_ok_def split: if_splits)
  have c: "0 < snd (snd (receive_order s)) \<longrightarrow>
              OrderQty r = 0 \<and> LeadTimeNewOrder r = None \<and>
              cur_lead_remaining s' =
                (if 0 < cur_lead_remaining s then cur_lead_remaining s - 1
                 else cur_lead_remaining s)"
    using r(3,4) nonneg by auto
  show ?thesis
    apply (rule exI[of _ g], rule exI[of _ s], rule exI[of _ s'])
    unfolding nth last
    using g pre st r(2,3) c by simp
qed

text \<open>
  The theorem on day 4 of \<open>default_run\<close>, the day on which the run orders 6 units: nothing
  was outstanding at the decision.
\<close>

theorem single_order_in_flight_witness:
  "simulate_policy real_ops counter_gen 0 11 2 2 DEFAULT_COSTS DEFAULT_INITIAL_STATE
     DEFAULT_DISTRIBUTIONS (Some 0) = Inr (default_run, 670, 335) \<and>
   (0 :: int) \<le> 3 \<and> (3 :: int) < 2 * 2 \<and>
   (\<exists>g s s'.
      make_rng counter_gen 0 (Some 0) = Inr g \<and>
      run_days real_ops counter_gen 11 2 DEFAULT_COSTS DEFAULT_DISTRIBUTIONS [1..3]
        (init_loop real_ops g DEFAULT_INITIAL_STATE) = Inr s \<and>
      day_step real_ops counter_gen 11 2 DEFAULT_COSTS DEFAULT_DISTRIBUTIONS (3 + 1) s = Inr s' \<and>
      snd (snd (receive_order s)) = 0 \<and> cur_outstanding_qty s' = 6)"
proof -
  have q: "OrderQty (default_run ! nat 3) = 6" by (simp add: default_run_def)
  show ?thesis
    using run_default single_order_in_flight [OF run_default, of 3] q
    by auto
qed

subsection \<open>Review gating\<close>

text \<open>
  Claim C6. In every run that returns, a row with a positive order quantity is the row of
  a day with \<open>day mod N = 0\<close>, and the row of any other day has order quantity zero, no
  lead time, and purchasing and ordering cost \<open>0.0\<close>.
\<close>

theorem review_gating:
  assumes "simulate_policy fl np entropy M N num_cycles costs ini ds seed = Inr (recs, tcost, avg)"
    and "r \<in> set recs"
  shows "(OrderQty r > 0 \<longrightarrow> Day r mod N = 0) \<and>
         (Day r mod N \<noteq> 0 \<longrightarrow>
            OrderQty r = 0 \<and> LeadTimeNewOrder r = None \<and>
            PurchasingCost r = fzero fl \<and> OrderingCost r = fzero fl)"
proof -
  from simulate_policy_records(2)[OF assms(1)] assms(2)
  have "day_record_ok fl N r" by blast
  then show ?thesis by (auto simp: day_record_ok_def split: if_splits)
qed

text \<open>The theorem on \<open>default_run\<close>: day 4 orders, day 3 is not a review day.\<close>

theorem review_gating_witness:
  "simulate_policy real_ops counter_gen 0 11 2 2 DEFAULT_COSTS DEFAULT_INITIAL_STATE
     DEFAULT_DISTRIBUTIONS (Some 0) = Inr (default_run, 670, 335) \<and>
   default_run ! 3 \<in> set default_run \<and> default_run ! 2 \<in> set default_run \<and>
   0 < OrderQty (default_run ! 3) \<and> Day (default_run ! 3) mod 2 = 0 \<and>
   Day (default_run ! 2) mod 2 = 1 \<and>
   OrderQty (default_run ! 2) = 0 \<and> LeadTimeNewOrder (default_run ! 2) = None \<and>
   PurchasingCost (default_run ! 2) = fzero real_ops \<and>
   OrderingCost (default_run ! 2) = fzero real_ops"
  using run_default review_gating [OF run_default, of "default_run ! 3"]
    review_gating [OF run_default, of "default_run ! 2"]
  by (simp add: default_run_def real_ops_def)

subsection \<open>Scenario B\<close>



subsection \<open>Number of rows, day and cycle indices\<close>

text \<open>
  Claim C8. With \<open>N \<ge> 1\<close> and \<open>num_cycles \<ge> 1\<close>, a run that returns has exactly
  \<open>N * num_cycles\<close> rows, and its \<open>k\<close>-th row, counted from 1, has \<open>Day = k\<close> and
  \<open>Cycle = (k - 1) div N + 1\<close>.
\<close>

theorem records_length_day_cycle:
  assumes "1 \<le> N" and "1 \<le> num_cycles"
    and "simulate_policy fl np entropy M N num_cycles costs ini ds seed = Inr (recs, tcost, avg)"
  shows "int (length recs) = N * num_cycles \<and>
         (\<forall>k. 1 \<le> k \<and> k \<le> N * num_cycles \<longrightarrow>
            Day (recs ! nat (k - 1)) = k \<and> Cycle (recs ! nat (k - 1)) = (k - 1) div N + 1)"
proof -
  note R = simulate_policy_records[OF assms(3)]
  have pos: "0 \<le> N * num_cycles" using assms(1,2) by simp
  have "length recs = length (map Day recs)" by simp
  also have "\<dots> = nat (N * num_cycles)" unfolding R(1) by simp
  finally have len: "length recs = nat (N * num_cycles)" .
  have "Day (recs ! nat (k - 1)) = k \<and> Cycle (recs ! nat (k - 1)) = (k - 1) div N + 1"
    if k: "1 \<le> k" "k \<le> N * num_cycles" for k
  proof -
    have lt: "nat (k - 1) < length recs" using k len by simp
    have "Day (recs ! nat (k - 1)) = map Day recs ! nat (k - 1)" using lt by simp
    also have "\<dots> = 1 + int (nat (k - 1))" unfolding R(1) using k by (intro nth_upto) simp
    finally have d: "Day (recs ! nat (k - 1)) = k" using k by simp
    have "recs ! nat (k - 1) \<in> set recs" using lt by simp
    with R(2) have "day_record_ok fl N (recs ! nat (k - 1))" by blast
    then have "Cycle (recs ! nat (k - 1)) = (Day (recs ! nat (k - 1)) - 1) div N + 1"
      by (simp add: day_record_ok_def)
    with d show ?thesis by simp
  qed
  with len pos show ?thesis by simp
qed

text \<open>The theorem on \<open>default_run\<close>: four rows, and the third is day 3 of cycle 2.\<close>

theorem records_length_day_cycle_witness:
  "(1 :: int) \<le> 2 \<and>
   simulate_policy real_ops counter_gen 0 11 2 2 DEFAULT_COSTS DEFAULT_INITIAL_STATE
     DEFAULT_DISTRIBUTIONS (Some 0) = Inr (default_run, 670, 335) \<and>
   int (length default_run) = 2 * 2 \<and>
   Day (default_run ! nat (3 - 1)) = 3 \<and> Cycle (default_run ! nat (3 - 1)) = (3 - 1) div 2 + 1"
proof -
  have h: "(1 :: int) \<le> 2" by simp
  note t = records_length_day_cycle [OF h h run_default]
  from t have len: "int (length default_run) = 2 * 2" by (rule conjunct1)
  from t have "\<forall>k. 1 \<le> k \<and> k \<le> 2 * 2 \<longrightarrow>
        Day (default_run ! nat (k - 1)) = k \<and> Cycle (default_run ! nat (k - 1)) = (k - 1) div 2 + 1"
    by (rule conjunct2)
  then have "(1 :: int) \<le> 3 \<and> (3 :: int) \<le> 2 * 2 \<longrightarrow>
        Day (default_run ! nat (3 - 1)) = 3 \<and> Cycle (default_run ! nat (3 - 1)) = (3 - 1) div 2 + 1"
    by (rule spec)
  then have "Day (default_run ! nat (3 - 1)) = 3 \<and>
        Cycle (default_run ! nat (3 - 1)) = (3 - 1) div 2 + 1"
    by simp
  with h run_default len show ?thesis by simp
qed

subsection \<open>Non-negativity\<close>

text \<open>
  Claim C9, as amended. Four of the five inequalities hold for every row of every run that
  returns, with no condition: \<open>EndingInventory \<ge> 0\<close>, \<open>ShortageQty \<ge> 0\<close>,
  \<open>Sales \<le> Demand\<close> and \<open>Sales \<le> OnHandStart + IncomingToday\<close>. The fifth does not: the
  code takes \<open>min on_hand demand\<close> as the sales, and the configuration the specification
  calls valid does not bound the demand values. With a non-negative initial on-hand
  quantity, \<open>Sales \<ge> 0\<close> holds on exactly the days whose sampled demand is non-negative;
  so it holds on every day when the demand values are non-negative and the sampler returns
  one of the values it is given.
\<close>

theorem non_negativity:
  assumes "simulate_policy fl np entropy M N num_cycles costs ini ds seed = Inr (recs, tcost, avg)"
    and "r \<in> set recs"
  shows "0 \<le> EndingInventory r \<and> 0 \<le> ShortageQty r \<and>
         Sales r \<le> Demand r \<and> Sales r \<le> OnHandStart r + IncomingToday r \<and>
         (0 \<le> on_hand ini \<longrightarrow> (0 \<le> Sales r \<longleftrightarrow> 0 \<le> Demand r)) \<and>
         (0 \<le> on_hand ini \<longrightarrow> (\<forall>v\<in>set (demand_values ds). 0 \<le> v) \<longrightarrow>
            (\<forall>g v g'. choice np g (demand_values ds) (demand_probs ds) = Inr (v, g')
                      \<longrightarrow> v \<in> set (demand_values ds)) \<longrightarrow>
            0 \<le> Sales r)"
proof -
  note R = simulate_policy_records[OF assms(1)]
  from R(2) assms(2) have ok: "day_record_ok fl N r"
    and dr: "\<exists>g g1. choice np g (demand_values ds) (demand_probs ds) = Inr (Demand r, g1)"
    by blast+
  from ok have f: "0 \<le> IncomingToday r" "Sales r = min (OnHandStart r) (Demand r)"
    "ShortageQty r = max (Demand r - OnHandStart r) 0"
    "EndingInventory r = OnHandStart r - Sales r"
    by (simp_all add: day_record_ok_def)
  have four: "0 \<le> EndingInventory r \<and> 0 \<le> ShortageQty r \<and>
         Sales r \<le> Demand r \<and> Sales r \<le> OnHandStart r + IncomingToday r"
    unfolding f(4) f(3) f(2) using f(1) by auto
  have o: "0 \<le> OnHandStart r" if "0 \<le> on_hand ini"
  proof -
    from assms(2) obtain i where "i < length recs" "r = recs ! i"
      by (auto simp: in_set_conv_nth)
    with on_hand_start_nonneg[OF assms(1) that] show ?thesis by simp
  qed
  have five: "0 \<le> Sales r \<longleftrightarrow> 0 \<le> Demand r" if "0 \<le> on_hand ini"
    unfolding f(2) using o[OF that] by auto
  have six: "0 \<le> Sales r" if "0 \<le> on_hand ini" "\<forall>v\<in>set (demand_values ds). 0 \<le> v"
    "\<forall>g v g'. choice np g (demand_values ds) (demand_probs ds) = Inr (v, g')
                      \<longrightarrow> v \<in> set (demand_values ds)"
  proof -
    from dr that(2,3) have "0 \<le> Demand r" by blast
    with five[OF that(1)] show ?thesis by simp
  qed
  from four five six show ?thesis by blast
qed

text \<open>The theorem on the second row of \<open>default_run\<close>.\<close>

theorem non_negativity_witness:
  "simulate_policy real_ops counter_gen 0 11 2 2 DEFAULT_COSTS DEFAULT_INITIAL_STATE
     DEFAULT_DISTRIBUTIONS (Some 0) = Inr (default_run, 670, 335) \<and>
   default_run ! 1 \<in> set default_run \<and>
   0 \<le> on_hand DEFAULT_INITIAL_STATE \<and>
   0 \<le> Demand (default_run ! 1) \<and>
   list_all (\<lambda>v. 0 \<le> v) (demand_values DEFAULT_DISTRIBUTIONS) \<and>
   0 \<le> EndingInventory (default_run ! 1) \<and> 0 \<le> ShortageQty (default_run ! 1) \<and>
   Sales (default_run ! 1) \<le> Demand (default_run ! 1) \<and>
   Sales (default_run ! 1) \<le> OnHandStart (default_run ! 1) + IncomingToday (default_run ! 1) \<and>
   0 \<le> Sales (default_run ! 1)"
proof -
  have 1: "0 \<le> on_hand DEFAULT_INITIAL_STATE"
    by (simp add: DEFAULT_INITIAL_STATE_def)
  have 2: "\<forall>v\<in>set (demand_values DEFAULT_DISTRIBUTIONS). 0 \<le> v"
    by (simp add: DEFAULT_DISTRIBUTIONS_def)
  have vals: "list_all (\<lambda>v. 0 \<le> v) (demand_values DEFAULT_DISTRIBUTIONS)"
    by (simp add: DEFAULT_DISTRIBUTIONS_def)
  have 3: "\<forall>g v g'. choice counter_gen g (demand_values DEFAULT_DISTRIBUTIONS)
          (demand_probs DEFAULT_DISTRIBUTIONS) = Inr (v, g')
        \<longrightarrow> v \<in> set (demand_values DEFAULT_DISTRIBUTIONS)"
  proof (intro allI impI)
    fix g v g'
    assume c: "choice counter_gen g (demand_values DEFAULT_DISTRIBUTIONS)
          (demand_probs DEFAULT_DISTRIBUTIONS) = Inr (v, g')"
    have "g mod 5 < 5" by simp
    then have "[0, 1, 2, 3, 4 :: int] ! (g mod 5) \<in> set [0, 1, 2, 3, 4]"
      by (intro nth_mem) simp
    with c show "v \<in> set (demand_values DEFAULT_DISTRIBUTIONS)"
      by (simp add: counter_gen_def DEFAULT_DISTRIBUTIONS_def)
  qed
  have 4: "default_run ! 1 \<in> set default_run" by (simp add: default_run_def)
  have 5: "0 \<le> Demand (default_run ! 1)" by (simp add: default_run_def)
  note t = non_negativity [OF run_default 4]
  from t have four: "0 \<le> EndingInventory (default_run ! 1)"
    "0 \<le> ShortageQty (default_run ! 1)"
    "Sales (default_run ! 1) \<le> Demand (default_run ! 1)"
    "Sales (default_run ! 1) \<le> OnHandStart (default_run ! 1) + IncomingToday (default_run ! 1)"
    by blast+
  from t 1 5 have s: "0 \<le> Sales (default_run ! 1)" by blast
  from t 1 2 3 have s': "0 \<le> Sales (default_run ! 1)" by blast
  from run_default 4 1 5 vals four s show ?thesis by (intro conjI)
qed

text \<open>
  The claim fails on a configuration that meets every stated precondition but has the
  demand value \<open>-2\<close>: the row records sales of \<open>-2\<close>.
\<close>

theorem negative_sales_counterexample:
  "simulate_policy real_ops counter_gen 0 5 1 1 DEFAULT_COSTS
     \<lparr>on_hand = 5, outstanding_qty = 0, lead_remaining = 0\<rparr>
     \<lparr>demand_values = [- 2], demand_probs = [1], lead_values = [1], lead_probs = [1]\<rparr>
     (Some 0) = Inr ([negative_demand_day], 140, 140) \<and>
   Sales negative_demand_day = - 2 \<and> Sales negative_demand_day < 0"
  using run_negative_demand by (simp add: negative_demand_day_def)

subsection \<open>A lead time of zero\<close>

text \<open>
  Claim C10. In a run that returns, a row that records a new order with sampled lead time
  0 or 1 has a positive order quantity and a remaining lead time of 0 at the end of the
  day, and if a following row exists its \<open>IncomingToday\<close> is that order quantity: the two
  lead times give the same behaviour. (By \<open>lead_zero_one_same_day\<close> the variables after
  the day of the order are the same as well.)
\<close>

theorem lead_time_zero_like_one:
  assumes "simulate_policy fl np entropy M N num_cycles costs ini ds seed = Inr (recs, tcost, avg)"
    and "i < length recs"
    and "LeadTimeNewOrder (recs ! i) = Some l" and "l = 0 \<or> l = 1"
  shows "0 < OrderQty (recs ! i) \<and> LeadRemainingEnd (recs ! i) = 0 \<and>
         (Suc i < length recs \<longrightarrow> IncomingToday (recs ! Suc i) = OrderQty (recs ! i))"
proof -
  note R = simulate_policy_records[OF assms(1)]
  have "recs ! i \<in> set recs" using assms(2) by simp
  with R(2) have "day_record_ok fl N (recs ! i)" by blast
  with assms(3,4) have a: "0 < OrderQty (recs ! i)" "LeadRemainingEnd (recs ! i) = 0"
    by (auto simp: day_record_ok_def split: if_splits)
  have "IncomingToday (recs ! Suc i) = OrderQty (recs ! i)" if "Suc i < length recs"
    using successively_nth[OF R(4) that] a by (simp add: next_ok_def)
  with a show ?thesis by simp
qed

text \<open>
  The theorem on \<open>zero_lead_run\<close>: the order of day 1 has lead time 0 and its 2 units
  arrive on day 2.
\<close>

theorem lead_time_zero_like_one_witness:
  "simulate_policy real_ops counter_gen 0 7 1 2 DEFAULT_COSTS
     \<lparr>on_hand = 5, outstanding_qty = 0, lead_remaining = 0\<rparr>
     \<lparr>demand_values = [0], demand_probs = [1], lead_values = [0], lead_probs = [1]\<rparr>
     (Some 0) = Inr (zero_lead_run, 350, 175) \<and>
   0 < length zero_lead_run \<and> LeadTimeNewOrder (zero_lead_run ! 0) = Some 0 \<and>
   0 < OrderQty (zero_lead_run ! 0) \<and> LeadRemainingEnd (zero_lead_run ! 0) = 0 \<and>
   Suc 0 < length zero_lead_run \<and>
   IncomingToday (zero_lead_run ! Suc 0) = OrderQty (zero_lead_run ! 0)"
proof -
  have 1: "0 < length zero_lead_run" by (simp add: zero_lead_run_def)
  have 2: "LeadTimeNewOrder (zero_lead_run ! 0) = Some 0" by (simp add: zero_lead_run_def)
  have 3: "(0 :: int) = 0 \<or> (0 :: int) = 1" by simp
  have 4: "Suc 0 < length zero_lead_run" by (simp add: zero_lead_run_def)
  show ?thesis
    using run_zero_lead 1 2 4 lead_time_zero_like_one [OF run_zero_lead 1 2 3]
    by simp
qed

end
